theory Spec2Isabelle
  imports Complex_Main "HOL-Library.AList" "HOL-Library.Multiset"
begin

section \<open>Values, songs, plugins and backends\<close>

text \<open>
  The player of \<^verbatim>\<open>src/player.js\<close> is an object whose methods mutate its own fields and
  the Song objects it shares with its queue. The embedding is by explicit state passing:
  a record \<open>player\<close> holds the fields, a store \<open>heap\<close> holds the Song objects (the queue
  and \<open>nowPlaying\<close> hold references into it), a thrown exception is an \<open>error option\<close>
  returned beside the state reached when it was thrown, and every call that leaves the
  player (a hook function of a plugin, \<open>song.prepare\<close>, a module loader, a backend, a
  user callback) is appended to the field \<open>trace\<close>, as are the assignments \<open>init\<close> makes to
  \<^verbatim>\<open>player.plugins\<close> and \<^verbatim>\<open>player.backends\<close> (with the keys of the value assigned), so that
  the trace gives their order among the calls. Calls to the logger are left out.
\<close>

type_synonym ref = nat

text \<open>A variable that holds a Song object, \<^verbatim>\<open>null\<close> or \<^verbatim>\<open>undefined\<close>.\<close>

datatype nullable = Null | Undefined | Ref ref

text \<open>
  A JavaScript number: \<^verbatim>\<open>NaN\<close>, an infinity or a finite value (rounding plays no part in
  what follows, so the finite ones are reals).
\<close>

datatype jsnum = NaN | NegInf | PosInf | Fin real

text \<open>The JavaScript values passed to hooks and callbacks and returned by hooks.\<close>

datatype jsval =
    JNull
  | JUndefined
  | JBool bool
  | JNum jsnum
  | JStr string
  | JSong ref
  | JObject

fun truthy :: "jsval \<Rightarrow> bool" where
  "truthy JNull = False"
| "truthy JUndefined = False"
| "truthy (JBool b) = b"
| "truthy (JNum x) = (x \<noteq> NaN \<and> x \<noteq> Fin 0)"
| "truthy (JStr s) = (s \<noteq> [])"
| "truthy (JSong r) = True"
| "truthy JObject = True"

text \<open>
  \<^verbatim>\<open>Math.max\<close> and \<^verbatim>\<open>Math.min\<close> of two arguments convert them to numbers and answer
  \<^verbatim>\<open>NaN\<close> when one of them is \<^verbatim>\<open>NaN\<close>. The conversion of a string is the runtime's,
  given as \<open>sn\<close>; \<^verbatim>\<open>undefined\<close> and an object with no numeric value of its own become
  \<^verbatim>\<open>NaN\<close>.
\<close>

fun num_le :: "jsnum \<Rightarrow> jsnum \<Rightarrow> bool" where
  "num_le NaN y = False"
| "num_le x NaN = False"
| "num_le NegInf y = True"
| "num_le x PosInf = True"
| "num_le (Fin x) (Fin y) = (x \<le> y)"
| "num_le x y = False"

definition math_max :: "jsnum \<Rightarrow> jsnum \<Rightarrow> jsnum" where
  "math_max a b = (if a = NaN \<or> b = NaN then NaN else if num_le a b then b else a)"

definition math_min :: "jsnum \<Rightarrow> jsnum \<Rightarrow> jsnum" where
  "math_min a b = (if a = NaN \<or> b = NaN then NaN else if num_le a b then a else b)"

fun toNumber :: "(string \<Rightarrow> jsnum) \<Rightarrow> jsval \<Rightarrow> jsnum" where
  "toNumber sn JNull = Fin 0"
| "toNumber sn JUndefined = NaN"
| "toNumber sn (JBool b) = Fin (if b then 1 else 0)"
| "toNumber sn (JNum x) = x"
| "toNumber sn (JStr s) = sn s"
| "toNumber sn (JSong r) = NaN"
| "toNumber sn JObject = NaN"

fun to_js :: "nullable \<Rightarrow> jsval" where
  "to_js Null = JNull"
| "to_js Undefined = JUndefined"
| "to_js (Ref r) = JSong r"

fun present :: "nullable \<Rightarrow> bool" where
  "present (Ref r) = True"
| "present Null = False"
| "present Undefined = False"

record playback =
  startTime :: int
  startPos :: int

text \<open>
  A Song object. \<open>prepared\<close> is what the method \<^verbatim>\<open>isPrepared()\<close> of the Song class answers,
  \<open>cancelPrepare\<close> tells whether the object has the property \<^verbatim>\<open>cancelPrepare\<close>,
  \<open>prepareTimeout\<close> is the handle of its watchdog timer (\<open>None\<close> for a falsy value) and
  \<open>songData\<close> tells whether \<^verbatim>\<open>song.songData\<close> holds buffered data.
\<close>

record song =
  uuid :: string
  songId :: string
  backendName :: string
  playback :: playback
  prepared :: bool
  cancelPrepare :: bool
  prepareTimeout :: "nat option"
  songData :: bool

text \<open>
  A plugin descriptor. \<open>hooks p h\<close> is what \<^verbatim>\<open>plugin.hooks[h]\<close> evaluates to: a hook
  function, taking the argument list to its return value, or \<open>None\<close> for a falsy entry.
  \<open>props p h\<close> is what the top-level property \<^verbatim>\<open>plugin[h]\<close> evaluates to for a name
  other than \<^verbatim>\<open>hooks\<close>. A hook function is taken to return: one that throws is not
  modelled.
\<close>

record plugin =
  hooks :: "string \<rightharpoonup> (jsval list \<Rightarrow> jsval)"
  props :: "string \<rightharpoonup> jsval"

definition plugin_get :: "plugin \<Rightarrow> string \<Rightarrow> jsval" where
  "plugin_get p h =
     (if h = ''hooks'' then JObject
      else case props p h of None \<Rightarrow> JUndefined | Some v \<Rightarrow> v)"

text \<open>
  A backend descriptor: its own \<^verbatim>\<open>name\<close> property and whether it has the optional
  \<^verbatim>\<open>getPlaylists\<close> method. Its \<^verbatim>\<open>search\<close> and \<^verbatim>\<open>getPlaylists\<close> are asynchronous
  collaborators: a call is logged, and the report arrives later as an event.
\<close>

record backend =
  bname :: string
  hasGetPlaylists :: bool

datatype error =
    QueueEmpty
  | PrepareFailed jsval
  | NoSong
  | TypeError

datatype stage = BuiltinPlugins | Plugins | BuiltinBackends | Backends

text \<open>
  The callback given to \<open>prepareSong\<close>: the continuation of the first or of the second
  task of the \<^verbatim>\<open>async.series\<close> of \<open>prepareSongs\<close> (the first one holds the variable
  \<^verbatim>\<open>currentSong\<close> it closes over), or a callback of another caller, known by a number.
\<close>

datatype done_cb = SeriesFirst nullable | SeriesSecond | ExternalDone nat

text \<open>
  The function given to \<^verbatim>\<open>song.prepare\<close>: the one of \<open>startPlayback\<close>, which closes over
  \<^verbatim>\<open>position\<close>, or the one of \<open>prepareSong\<close>, which closes over the song and the callback.
\<close>

datatype handler = PlaybackHandler int | ProgressHandler ref done_cb

datatype timer_action = PrepareWatchdog ref | ExternalTimer

datatype event =
    HookCall string string "jsval list"
  | SongPrepare ref handler
  | PlaybackStarted ref int
  | CancelPrepare ref string
  | DoneCalled nat "jsval list"
  | ModuleLoad stage
  | PluginsAssigned "string list"
  | BackendsAssigned "string list"
  | SearchCall string jsval
  | GetPlaylistsCall string

text \<open>
  The queue: the references of its songs in play order and the truthiness of its property
  \<^verbatim>\<open>playbackStart\<close>. That property is how \<^verbatim>\<open>player.js\<close> asks whether playback has
  started: it reads it in \<open>prepareSong\<close> and \<open>prepareProgCallback\<close> and never writes it
  (the Queue class, which keeps it, is not among the sources).
\<close>

record queue =
  songs :: "ref list"
  playbackStart :: bool

text \<open>
  The player. \<open>plugins\<close> and \<open>backends\<close> are the objects \<^verbatim>\<open>this.plugins\<close> and
  \<^verbatim>\<open>this.backends\<close> as the list of their entries in enumeration order (keys distinct).
  \<open>timers\<close> are the pending timeouts of the runtime, \<open>nextTimer\<close> the next fresh handle,
  \<open>preparing\<close> the registries \<^verbatim>\<open>backend.songsPreparing\<close> of the backend objects, by
  backend name and song id (the value tells whether the entry holds \<^verbatim>\<open>songData\<close>), and
  \<open>songPrepareTimeout\<close> the value \<^verbatim>\<open>config.songPrepareTimeout\<close>. The player object itself
  has no property \<^verbatim>\<open>songsPreparing\<close>: nothing in the constructor creates one.
\<close>

record player =
  heap :: "ref \<Rightarrow> song"
  queue :: queue
  nowPlaying :: nullable
  play :: bool
  repeat :: bool
  plugins :: "(string \<times> plugin) list"
  backends :: "(string \<times> backend) list"
  volume :: jsval
  songEndTimeout :: "nat option"
  timers :: "(nat \<times> timer_action) list"
  nextTimer :: nat
  preparing :: "string \<Rightarrow> string \<rightharpoonup> bool"
  songPrepareTimeout :: nat
  trace :: "event list"

type_synonym result = "error option \<times> player"

text \<open>Sequencing of statements: an exception skips what follows.\<close>

definition andThen :: "result \<Rightarrow> (player \<Rightarrow> result) \<Rightarrow> result" where
  "andThen r f = (case fst r of None \<Rightarrow> f (snd r) | Some e \<Rightarrow> r)"

definition emit :: "event list \<Rightarrow> player \<Rightarrow> player" where
  "emit evs st = st\<lparr>trace := trace st @ evs\<rparr>"

section \<open>The hook dispatcher\<close>

text \<open>
  \<^verbatim>\<open>_.find(this.plugins, plugin => { if (plugin.hooks[hook]) { ...; err = fun.apply(null, argv);
  return err; } })\<close>: the plugins are visited in order; one without the hook makes the
  predicate return \<^verbatim>\<open>undefined\<close>, so the search goes on; a hook's return value is stored in
  \<^verbatim>\<open>err\<close> and stops the search when truthy. The result is the final \<^verbatim>\<open>err\<close> and the
  calls made.
\<close>

fun callHooks_find ::
  "(string \<times> plugin) list \<Rightarrow> string \<Rightarrow> jsval list \<Rightarrow> jsval \<Rightarrow> jsval \<times> event list" where
  "callHooks_find [] hook argv err = (err, [])"
| "callHooks_find ((n, p) # ps) hook argv err =
     (case hooks p hook of
        None \<Rightarrow> callHooks_find ps hook argv err
      | Some f \<Rightarrow>
          (let err' = f argv in
           if truthy err' then (err', [HookCall n hook argv])
           else (case callHooks_find ps hook argv err' of
                   (e, evs) \<Rightarrow> (e, HookCall n hook argv # evs))))"

definition callHooks :: "string \<Rightarrow> jsval list \<Rightarrow> player \<Rightarrow> jsval \<times> player" where
  "callHooks hook argv st =
     (case callHooks_find (plugins st) hook argv JNull of
        (err, evs) \<Rightarrow> (err, emit evs st))"

text \<open>
  \<^verbatim>\<open>_.find(this.plugins, plugin => { if (plugin[hook]) { cnt++; } })\<close>: the predicate never
  returns a truthy value, so every plugin is visited.
\<close>

fun numHooks_find :: "(string \<times> plugin) list \<Rightarrow> string \<Rightarrow> nat \<Rightarrow> nat" where
  "numHooks_find [] hook cnt = cnt"
| "numHooks_find ((n, p) # ps) hook cnt =
     numHooks_find ps hook (if truthy (plugin_get p hook) then cnt + 1 else cnt)"

definition numHooks :: "string \<Rightarrow> player \<Rightarrow> nat" where
  "numHooks hook st = numHooks_find (plugins st) hook 0"

section \<open>The queue and the timers\<close>

text \<open>
  Modelled from the spec: the Queue class (\<^verbatim>\<open>src/queue.js\<close>) is not among the sources.
  The spec gives the queue as an ordered sequence of songs with lookup by \<open>uuid\<close> and by
  position: \<open>findSong\<close> answers the first song with the given uuid or \<^verbatim>\<open>null\<close>,
  \<open>findSongIndex\<close> its index or \<open>-1\<close>, \<open>uuidAtIndex\<close> the uuid at a position or
  \<^verbatim>\<open>null\<close>, \<open>getLength\<close> the number of songs. The key is compared with \<^verbatim>\<open>===\<close>, so a
  key that is not a string matches no song.
\<close>

fun findIndexFrom :: "(ref \<Rightarrow> song) \<Rightarrow> ref list \<Rightarrow> jsval \<Rightarrow> int \<Rightarrow> int" where
  "findIndexFrom h [] key i = - 1"
| "findIndexFrom h (r # rs) key i =
     (if JStr (uuid (h r)) = key then i else findIndexFrom h rs key (i + 1))"

definition findSongIndex :: "player \<Rightarrow> jsval \<Rightarrow> int" where
  "findSongIndex st key = findIndexFrom (heap st) (songs (queue st)) key 0"

text \<open>\<^verbatim>\<open>this.queue.songs[i]\<close>: reading an array out of range gives \<^verbatim>\<open>undefined\<close>.\<close>

definition songAt :: "player \<Rightarrow> int \<Rightarrow> nullable" where
  "songAt st i =
     (if 0 \<le> i \<and> i < int (length (songs (queue st)))
      then Ref (songs (queue st) ! nat i) else Undefined)"

definition findSong :: "player \<Rightarrow> jsval \<Rightarrow> nullable" where
  "findSong st key =
     (case songAt st (findSongIndex st key) of Ref r \<Rightarrow> Ref r | _ \<Rightarrow> Null)"

definition uuidAtIndex :: "player \<Rightarrow> int \<Rightarrow> jsval" where
  "uuidAtIndex st i =
     (case songAt st i of Ref r \<Rightarrow> JStr (uuid (heap st r)) | _ \<Rightarrow> JNull)"

definition getLength :: "player \<Rightarrow> nat" where
  "getLength st = length (songs (queue st))"

text \<open>\<^verbatim>\<open>clearTimeout\<close> and \<^verbatim>\<open>setTimeout\<close> of the runtime.\<close>

definition clearTimeout :: "nat option \<Rightarrow> player \<Rightarrow> player" where
  "clearTimeout h st =
     (case h of
        None \<Rightarrow> st
      | Some t \<Rightarrow> st\<lparr>timers := filter (\<lambda>e. fst e \<noteq> t) (timers st)\<rparr>)"

definition setTimeout :: "timer_action \<Rightarrow> player \<Rightarrow> nat \<times> player" where
  "setTimeout a st =
     (nextTimer st,
      st\<lparr>timers := timers st @ [(nextTimer st, a)], nextTimer := nextTimer st + 1\<rparr>)"

definition updSong :: "ref \<Rightarrow> (song \<Rightarrow> song) \<Rightarrow> player \<Rightarrow> player" where
  "updSong r f st = st\<lparr>heap := (heap st)(r := f (heap st r))\<rparr>"

section \<open>The playback state machine\<close>

text \<open>
  \<open>stopPlayback\<close>: \<^verbatim>\<open>np.playback.startPos\<close> is read before the test \<^verbatim>\<open>if (np)\<close>, so a
  \<^verbatim>\<open>nowPlaying\<close> that is \<^verbatim>\<open>null\<close> or \<^verbatim>\<open>undefined\<close> throws a TypeError there, after the
  timer was cleared and \<open>play\<close> was reset. \<open>now\<close> is \<^verbatim>\<open>new Date().getTime()\<close>.
\<close>

definition stopPlayback :: "bool \<Rightarrow> int \<Rightarrow> player \<Rightarrow> result" where
  "stopPlayback pause now st =
     (let st1 = (clearTimeout (songEndTimeout st) st)\<lparr>play := False\<rparr> in
      case nowPlaying st1 of
        Ref r \<Rightarrow>
          (let pb = playback (heap st1 r);
               pos = startPos pb + (now - startTime pb)
           in (None,
               updSong r (\<lambda>s. s\<lparr>playback :=
                 \<lparr>startTime = 0, startPos = (if pause then pos else 0)\<rparr>\<rparr>) st1))
      | _ \<Rightarrow> (Some TypeError, st1))"

text \<open>
  \<open>startPlayback\<close>: \<^verbatim>\<open>this.nowPlaying = this.queue.songs[0]\<close> is executed before the test
  that throws. \<^verbatim>\<open>nowPlaying.prepare\<close> belongs to the Song class: the call is logged with
  its handler, which runs later as \<open>startPlayback_onPrepared\<close>.
\<close>

definition startPlayback :: "int option \<Rightarrow> player \<Rightarrow> result" where
  "startPlayback position st =
     (let pos = (case position of None \<Rightarrow> 0 | Some p \<Rightarrow> p);
          st1 = (if \<not> present (nowPlaying st) then st\<lparr>nowPlaying := songAt st 0\<rparr> else st)
      in case nowPlaying st1 of
           Ref r \<Rightarrow> (None, emit [SongPrepare r (PlaybackHandler pos)] st1)
         | _ \<Rightarrow> (Some QueueEmpty, st1))"

text \<open>
  Modelled from the spec: \<^verbatim>\<open>playbackStarted(position)\<close> is a method of the Song class,
  which is not among the sources; the call is logged.
\<close>

definition startPlayback_onPrepared :: "int \<Rightarrow> jsval \<Rightarrow> player \<Rightarrow> result" where
  "startPlayback_onPrepared pos err st =
     (if truthy err then (Some (PrepareFailed err), st)
      else case nowPlaying st of
             Ref r \<Rightarrow>
               (None,
                (emit [PlaybackStarted r
                         (if pos \<noteq> 0 then pos else startPos (playback (heap st r)))] st)
                \<lparr>play := True\<rparr>)
           | _ \<Rightarrow> (Some TypeError, st))"

definition changeSong :: "jsval \<Rightarrow> int \<Rightarrow> player \<Rightarrow> result" where
  "changeSong u now st =
     (let st1 = clearTimeout (songEndTimeout st) st;
          st2 = st1\<lparr>nowPlaying := findSong st1 u\<rparr>
      in andThen
           (if \<not> present (nowPlaying st2) then stopPlayback False now st2 else (None, st2))
           (startPlayback None))"

section \<open>The preparation pipeline\<close>

definition setPrepareTimeout :: "ref \<Rightarrow> player \<Rightarrow> player" where
  "setPrepareTimeout r st =
     (let st1 = clearTimeout (prepareTimeout (heap st r)) st;
          (t, st2) = setTimeout (PrepareWatchdog r) st1
      in updSong r (\<lambda>s. s\<lparr>prepareTimeout := Some t\<rparr>) st2)"

definition clearPrepareTimeout :: "ref \<Rightarrow> player \<Rightarrow> player" where
  "clearPrepareTimeout r st =
     updSong r (\<lambda>s. s\<lparr>prepareTimeout := None\<rparr>)
       (clearTimeout (prepareTimeout (heap st r)) st)"

definition prepareError :: "ref \<Rightarrow> jsval \<Rightarrow> player \<Rightarrow> player" where
  "prepareError r err st = snd (callHooks ''onSongPrepareError'' [JSong r, err] st)"

text \<open>
  The test both \<open>prepareSong\<close> and \<open>prepareProgCallback\<close> make before starting playback:
  \<^verbatim>\<open>this.play && this.getNowPlaying() && this.getNowPlaying().uuid === song.uuid &&
  !this.queue.playbackStart\<close>.
\<close>

definition playbackPending :: "ref \<Rightarrow> player \<Rightarrow> bool" where
  "playbackPending r st =
     (play st \<and>
      (case nowPlaying st of
         Ref n \<Rightarrow> uuid (heap st n) = uuid (heap st r)
       | _ \<Rightarrow> False) \<and>
      \<not> playbackStart (queue st))"

text \<open>
  \<open>prepareSong\<close> and the callback it is given. \<open>callDone\<close> runs that callback: a callback
  of another caller is logged; the callback of the first task of \<open>prepareSongs\<close> stops the
  series on a truthy argument and runs the second task otherwise, which reads
  \<^verbatim>\<open>player.queue.songs[player.queue.findSongIndex(currentSong) + 1]\<close> (the Song object
  itself is the key); the callback of the second task ends the series, which has no final
  callback.
\<close>

function prepareSong :: "nullable \<Rightarrow> done_cb \<Rightarrow> player \<Rightarrow> result"
  and callDone :: "done_cb \<Rightarrow> jsval list \<Rightarrow> player \<Rightarrow> result" where
  "prepareSong sg cb st =
     (case sg of
        Ref r \<Rightarrow>
          (if prepared (heap st r) then
             andThen
               (if playbackPending r st then startPlayback None st else (None, st))
               (callDone cb [])
           else
             (None, setPrepareTimeout r (emit [SongPrepare r (ProgressHandler r cb)] st)))
      | _ \<Rightarrow> (Some NoSong, st))"
| "callDone (ExternalDone k) args st = (None, emit [DoneCalled k args] st)"
| "callDone SeriesSecond args st = (None, st)"
| "callDone (SeriesFirst cur) args st =
     (if (case args of [] \<Rightarrow> False | a # _ \<Rightarrow> truthy a) then (None, st)
      else case songAt st (findSongIndex st (to_js cur) + 1) of
             Ref n \<Rightarrow> prepareSong (Ref n) SeriesSecond st
           | _ \<Rightarrow> callDone SeriesSecond [JBool True] st)"
  by pat_completeness auto
termination
  by (relation "measure (\<lambda>x. case x of
        Inl (sg, cb, st) \<Rightarrow> (case cb of SeriesFirst c \<Rightarrow> 3 | _ \<Rightarrow> 1)
      | Inr (cb, args, st) \<Rightarrow> (case cb of SeriesFirst c \<Rightarrow> 2 | _ \<Rightarrow> 0))")
     (auto split: done_cb.splits)

declare prepareSong.simps [simp del]

definition prepareProgCallback :: "ref \<Rightarrow> jsval \<Rightarrow> jsval \<Rightarrow> player \<Rightarrow> result" where
  "prepareProgCallback r bytesWritten done st =
     andThen
       (if playbackPending r st \<and> truthy bytesWritten then startPlayback None st
        else (None, st))
       (\<lambda>st0.
          let st1 = snd (callHooks ''onPrepareProgress'' [JSong r, bytesWritten, done] st0)
          in if truthy done then
               (let st2 = snd (callHooks ''onSongPrepared'' [JSong r] st1);
                    st3 = updSong r (\<lambda>s. s\<lparr>cancelPrepare := False\<rparr>) st2;
                    b = backendName (heap st3 r);
                    i = songId (heap st3 r)
                in case preparing st3 b i of
                     None \<Rightarrow> (Some TypeError, st3)
                   | Some d \<Rightarrow>
                       (None,
                        clearPrepareTimeout r
                          (st3\<lparr>preparing := (preparing st3)(b := (preparing st3 b)(i := None))\<rparr>)))
             else (None, setPrepareTimeout r st1))"

text \<open>
  \<open>prepareErrCallback\<close> is defined by the class and called from nowhere (the call in
  \<open>prepareSongs\<close> is commented out). Its last statement reads
  \<^verbatim>\<open>this.songsPreparing[song.backend.name]\<close> on the player, which has no such property:
  a TypeError.
\<close>

definition prepareErrCallback :: "ref \<Rightarrow> jsval \<Rightarrow> done_cb \<Rightarrow> player \<Rightarrow> result" where
  "prepareErrCallback r err cb st =
     (let st1 = updSong r (\<lambda>s. s\<lparr>cancelPrepare := False\<rparr>) st;
          st2 = clearPrepareTimeout r st1
      in andThen (callDone cb [JBool True] st2)
           (\<lambda>st3. (Some TypeError,
                    updSong r (\<lambda>s. s\<lparr>songData := False\<rparr>) (prepareError r err st3))))"

text \<open>
  The function \<open>prepareSong\<close> gives to \<^verbatim>\<open>song.prepare\<close>, run when the song's fetch reports
  \<^verbatim>\<open>(err, chunk, done)\<close>.
\<close>

definition prepareSong_onProgress ::
  "ref \<Rightarrow> done_cb \<Rightarrow> jsval \<Rightarrow> jsval \<Rightarrow> jsval \<Rightarrow> player \<Rightarrow> result" where
  "prepareSong_onProgress r cb err chunk done st =
     (if truthy err then callDone cb [err] st
      else andThen
             (if truthy chunk then prepareProgCallback r chunk done st else (None, st))
             (\<lambda>st1. if truthy done then callDone cb [] (clearPrepareTimeout r st1)
                    else (None, st1)))"

text \<open>
  The function \<open>setPrepareTimeout\<close> gives to \<^verbatim>\<open>setTimeout\<close>, run by the runtime when the
  timer \<open>t\<close> expires. \<^verbatim>\<open>song.cancelPrepare\<close> belongs to the backend: the call is logged,
  and it is a TypeError when the property was deleted.
\<close>

definition fireTimer :: "nat \<Rightarrow> player \<Rightarrow> result" where
  "fireTimer t st =
     (case map_of (timers st) t of
        None \<Rightarrow> (None, st)
      | Some a \<Rightarrow>
          (let st1 = st\<lparr>timers := filter (\<lambda>e. fst e \<noteq> t) (timers st)\<rparr> in
           case a of
             PrepareWatchdog r \<Rightarrow>
               (if cancelPrepare (heap st1 r)
                then (None, updSong r (\<lambda>s. s\<lparr>prepareTimeout := None\<rparr>)
                              (emit [CancelPrepare r ''prepare timeout''] st1))
                else (Some TypeError, st1))
           | ExternalTimer \<Rightarrow> (None, st1)))"

definition prepareSongs :: "player \<Rightarrow> result" where
  "prepareSongs st =
     (case nowPlaying st of
        Ref c \<Rightarrow> prepareSong (Ref c) (SeriesFirst (Ref c)) st
      | np \<Rightarrow>
          (if getLength st \<noteq> 0
           then prepareSong (songAt st 0) (SeriesFirst (songAt st 0)) st
           else callDone (SeriesFirst np) [JBool True] st))"

definition songEnd :: "int \<Rightarrow> player \<Rightarrow> result" where
  "songEnd now st =
     (case nowPlaying st of
        Ref n \<Rightarrow>
          (let npIndex = findSongIndex st (JStr (uuid (heap st n)));
               st1 = snd (callHooks ''onSongEnd'' [JSong n] st)
           in andThen
                (case songAt st1 (npIndex + 1) of
                   Ref x \<Rightarrow> changeSong (JStr (uuid (heap st1 x))) now st1
                 | _ \<Rightarrow>
                     (if repeat st1 then changeSong (uuidAtIndex st1 0) now st1
                      else (None, st1)))
                prepareSongs)
      | _ \<Rightarrow> (Some TypeError, st))"

section \<open>Construction, initialization and volume\<close>

text \<open>
  The options of the constructor; \<open>None\<close> is a falsy or missing option, and the volume
  option is any value (\<^verbatim>\<open>undefined\<close> when missing). The queue made
  by \<^verbatim>\<open>new Queue(this)\<close> is empty (modelled from the spec: the Queue class is not among
  the sources). The songs that exist are given as the store \<open>h\<close>.
\<close>

record options =
  opt_queue :: "queue option"
  opt_nowPlaying :: nullable
  opt_play :: "bool option"
  opt_repeat :: "bool option"
  opt_plugins :: "(string \<times> plugin) list option"
  opt_backends :: "(string \<times> backend) list option"
  opt_volume :: jsval
  opt_songEndTimeout :: "nat option"
  opt_songPrepareTimeout :: nat

definition constructor :: "(ref \<Rightarrow> song) \<Rightarrow> options \<Rightarrow> player" where
  "constructor h opts =
     \<lparr>heap = h,
      queue = (case opt_queue opts of
                 None \<Rightarrow> \<lparr>songs = [], playbackStart = False\<rparr>
               | Some q \<Rightarrow> q),
      nowPlaying = (case opt_nowPlaying opts of Ref r \<Rightarrow> Ref r | _ \<Rightarrow> Null),
      play = (case opt_play opts of None \<Rightarrow> False | Some b \<Rightarrow> b),
      repeat = (case opt_repeat opts of None \<Rightarrow> False | Some b \<Rightarrow> b),
      plugins = (case opt_plugins opts of None \<Rightarrow> [] | Some ps \<Rightarrow> ps),
      backends = (case opt_backends opts of None \<Rightarrow> [] | Some bs \<Rightarrow> bs),
      volume = (if truthy (opt_volume opts) then opt_volume opts else JNum (Fin 1)),
      songEndTimeout = opt_songEndTimeout opts,
      timers = [],
      nextTimer = 0,
      preparing = (\<lambda>b. Map.empty),
      songPrepareTimeout = opt_songPrepareTimeout opts,
      trace = []\<rparr>"

text \<open>
  \<^verbatim>\<open>_.extend(dst, src)\<close> assigns every entry of \<open>src\<close> to \<open>dst\<close>: a key \<open>dst\<close> has keeps
  its place, a new key is added at the end.
\<close>

definition extend_obj :: "(string \<times> 'a) list \<Rightarrow> (string \<times> 'a) list \<Rightarrow> (string \<times> 'a) list" where
  "extend_obj dst src = foldl (\<lambda>acc e. AList.update (fst e) (snd e) acc) dst src"

text \<open>
  \<open>init\<close> starts an \<^verbatim>\<open>async.series\<close> of four tasks. Each task calls a loader of the module
  \<^verbatim>\<open>./modules\<close> (not among the sources: the call is logged) with a function that runs when
  the loader reports its result: the four functions below. Each ends with \<^verbatim>\<open>callback()\<close>,
  on which the series calls the next task, or its final function after the fourth.
\<close>

definition init :: "player \<Rightarrow> player" where
  "init st = emit [ModuleLoad BuiltinPlugins] st"

definition init_builtinPluginsLoaded :: "(string \<times> plugin) list \<Rightarrow> player \<Rightarrow> player" where
  "init_builtinPluginsLoaded ps st =
     (let st1 = emit [PluginsAssigned (map fst ps)] (st\<lparr>plugins := ps\<rparr>);
          st2 = snd (callHooks ''onBuiltinPluginsInitialized'' [] st1)
      in emit [ModuleLoad Plugins] st2)"

definition init_pluginsLoaded :: "(string \<times> plugin) list \<Rightarrow> player \<Rightarrow> player" where
  "init_pluginsLoaded results st =
     (let ps = extend_obj (plugins st) results;
          st1 = emit [PluginsAssigned (map fst ps)] (st\<lparr>plugins := ps\<rparr>);
          st2 = snd (callHooks ''onPluginsInitialized'' [] st1)
      in emit [ModuleLoad BuiltinBackends] st2)"

definition init_builtinBackendsLoaded :: "(string \<times> backend) list \<Rightarrow> player \<Rightarrow> player" where
  "init_builtinBackendsLoaded bs st =
     (let st1 = emit [BackendsAssigned (map fst bs)] (st\<lparr>backends := bs\<rparr>);
          st2 = snd (callHooks ''onBuiltinBackendsInitialized'' [] st1)
      in emit [ModuleLoad Backends] st2)"

definition init_backendsLoaded :: "(string \<times> backend) list \<Rightarrow> player \<Rightarrow> player" where
  "init_backendsLoaded results st =
     (let bs = extend_obj (backends st) results;
          st1 = emit [BackendsAssigned (map fst bs)] (st\<lparr>backends := bs\<rparr>);
          st2 = snd (callHooks ''onBackendsInitialized'' [] st1)
      in snd (callHooks ''onReady'' [] st2))"

text \<open>
  \<^verbatim>\<open>newVol = Math.min(1, Math.max(0, newVol)); this.volume = newVol;\<close> and the hook,
  for any argument: one whose number is \<^verbatim>\<open>NaN\<close> (a missing argument, say) stores \<^verbatim>\<open>NaN\<close>.
\<close>

definition setVolume :: "(string \<Rightarrow> jsnum) \<Rightarrow> jsval \<Rightarrow> jsval \<Rightarrow> player \<Rightarrow> player" where
  "setVolume sn newVol userID st =
     (let v = JNum (math_min (Fin 1) (math_max (Fin 0) (toNumber sn newVol)))
      in snd (callHooks ''onVolumeChange'' [v, userID] (st\<lparr>volume := v\<rparr>)))"

section \<open>The search and playlist aggregator\<close>

text \<open>
  The variables \<^verbatim>\<open>resultCnt\<close> and \<^verbatim>\<open>allResults\<close> one call of \<open>searchBackends\<close> or of
  \<open>getPlaylists\<close> closes over, and the calls made of its \<^verbatim>\<open>callback\<close>, each with the value
  of \<^verbatim>\<open>allResults\<close> it was given.
\<close>

record 'r join =
  resultCnt :: nat
  allResults :: "(string \<times> 'r) list"
  fired :: "(string \<times> 'r) list list"

definition join0 :: "'r join" where
  "join0 = \<lparr>resultCnt = 0, allResults = [], fired = []\<rparr>"

text \<open>
  \<^verbatim>\<open>if (resultCnt >= Object.keys(this.backends).length) { callback(allResults); }\<close>
\<close>

definition gotAll :: "player \<Rightarrow> 'r join \<Rightarrow> 'r join" where
  "gotAll st j =
     (if resultCnt j \<ge> length (backends st) then j\<lparr>fired := fired j @ [allResults j]\<rparr>
      else j)"

text \<open>
  \<open>searchBackends\<close> calls \<^verbatim>\<open>backend.search\<close> of every backend with two functions, run when
  the backend reports its songs (the values of \<^verbatim>\<open>results.songs\<close>, in order) or an error.
\<close>

definition searchBackends :: "jsval \<Rightarrow> player \<Rightarrow> (string \<times> ref) list join \<times> player" where
  "searchBackends query st =
     (join0, emit (map (\<lambda>e. SearchCall (bname (snd e)) query) (backends st)) st)"

fun filterResults ::
  "ref list \<Rightarrow> (string \<times> ref) list \<Rightarrow> player \<Rightarrow> (string \<times> ref) list \<times> player" where
  "filterResults [] acc st = (acc, st)"
| "filterResults (r # rs) acc st =
     (case callHooks ''preAddSearchResult'' [JSong r] st of
        (err, st1) \<Rightarrow>
          (if truthy err then filterResults rs acc st1
           else filterResults rs (AList.update (songId (heap st1 r)) r acc) st1))"

definition search_onResults ::
  "backend \<Rightarrow> ref list \<Rightarrow> (string \<times> ref) list join \<times> player
     \<Rightarrow> (string \<times> ref) list join \<times> player" where
  "search_onResults b tempSongs js =
     (case js of
        (j, st) \<Rightarrow>
          (case filterResults tempSongs [] st of
             (kept, st1) \<Rightarrow>
               (gotAll st1
                  (j\<lparr>resultCnt := resultCnt j + 1,
                     allResults := AList.update (bname b) kept (allResults j)\<rparr>),
                st1)))"

definition search_onError ::
  "backend \<Rightarrow> jsval \<Rightarrow> (string \<times> ref) list join \<times> player
     \<Rightarrow> (string \<times> ref) list join \<times> player" where
  "search_onError b err js =
     (case js of (j, st) \<Rightarrow> (gotAll st (j\<lparr>resultCnt := resultCnt j + 1\<rparr>), st))"

text \<open>
  \<open>getPlaylists\<close>: a backend without the method is counted at once, inside the loop; the
  others are called with a function that runs when the backend reports \<^verbatim>\<open>(err, results)\<close>.
\<close>

fun getPlaylists_each :: "(string \<times> backend) list \<Rightarrow> jsval join \<times> player \<Rightarrow> jsval join \<times> player" where
  "getPlaylists_each [] js = js"
| "getPlaylists_each ((n, b) # bs) (j, st) =
     (if \<not> hasGetPlaylists b
      then getPlaylists_each bs (gotAll st (j\<lparr>resultCnt := resultCnt j + 1\<rparr>), st)
      else getPlaylists_each bs (j, emit [GetPlaylistsCall (bname b)] st))"

definition getPlaylists :: "player \<Rightarrow> jsval join \<times> player" where
  "getPlaylists st = getPlaylists_each (backends st) (join0, st)"

definition getPlaylists_onResults ::
  "backend \<Rightarrow> jsval \<Rightarrow> jsval \<Rightarrow> jsval join \<times> player \<Rightarrow> jsval join \<times> player" where
  "getPlaylists_onResults b err results js =
     (case js of
        (j, st) \<Rightarrow>
          (gotAll st
             (j\<lparr>resultCnt := resultCnt j + 1,
                allResults := AList.update (bname b) results (allResults j)\<rparr>),
           st))"

text \<open>
  What a backend reports to a search: its songs or an error. A schedule is the order in
  which the reports of the backends arrive.
\<close>

datatype report = Songs "ref list" | Failed jsval

fun search_report ::
  "backend \<times> report \<Rightarrow> (string \<times> ref) list join \<times> player
     \<Rightarrow> (string \<times> ref) list join \<times> player" where
  "search_report (b, Songs rs) js = search_onResults b rs js"
| "search_report (b, Failed e) js = search_onError b e js"

definition search_run ::
  "(backend \<times> report) list \<Rightarrow> (string \<times> ref) list join \<times> player
     \<Rightarrow> (string \<times> ref) list join \<times> player" where
  "search_run sched js = foldl (\<lambda>s e. search_report e s) js sched"

definition playlists_run ::
  "(backend \<times> jsval \<times> jsval) list \<Rightarrow> jsval join \<times> player \<Rightarrow> jsval join \<times> player" where
  "playlists_run sched js =
     foldl (\<lambda>s e. getPlaylists_onResults (fst e) (fst (snd e)) (snd (snd e)) s) js sched"

section \<open>The operations and events of a player\<close>

text \<open>
  Every method of the class that changes the player and every function it hands to a
  collaborator, as one step function (\<open>sn\<close> is the runtime's conversion of strings to
  numbers).
\<close>

datatype op =
    Init
  | BuiltinPluginsLoaded "(string \<times> plugin) list"
  | PluginsLoaded "(string \<times> plugin) list"
  | BuiltinBackendsLoaded "(string \<times> backend) list"
  | BackendsLoaded "(string \<times> backend) list"
  | StopPlayback bool int
  | StartPlayback "int option"
  | PlaybackPrepared int jsval
  | ChangeSong jsval int
  | SongEnd int
  | PrepareSong nullable done_cb
  | PrepareProgress ref done_cb jsval jsval jsval
  | PrepareErr ref jsval done_cb
  | TimerFired nat
  | PrepareSongs
  | SetVolume jsval jsval

fun step :: "(string \<Rightarrow> jsnum) \<Rightarrow> op \<Rightarrow> player \<Rightarrow> result" where
  "step sn Init st = (None, init st)"
| "step sn (BuiltinPluginsLoaded ps) st = (None, init_builtinPluginsLoaded ps st)"
| "step sn (PluginsLoaded ps) st = (None, init_pluginsLoaded ps st)"
| "step sn (BuiltinBackendsLoaded bs) st = (None, init_builtinBackendsLoaded bs st)"
| "step sn (BackendsLoaded bs) st = (None, init_backendsLoaded bs st)"
| "step sn (StopPlayback pause now) st = stopPlayback pause now st"
| "step sn (StartPlayback position) st = startPlayback position st"
| "step sn (PlaybackPrepared pos err) st = startPlayback_onPrepared pos err st"
| "step sn (ChangeSong u now) st = changeSong u now st"
| "step sn (SongEnd now) st = songEnd now st"
| "step sn (PrepareSong sg cb) st = prepareSong sg cb st"
| "step sn (PrepareProgress r cb err chunk done) st = prepareSong_onProgress r cb err chunk done st"
| "step sn (PrepareErr r err cb) st = prepareErrCallback r err cb st"
| "step sn (TimerFired t) st = fireTimer t st"
| "step sn PrepareSongs st = prepareSongs st"
| "step sn (SetVolume v userID) st = (None, setVolume sn v userID st)"

text \<open>A run: the state after a sequence of steps, each one started whatever the one before threw.\<close>

fun run :: "(string \<Rightarrow> jsnum) \<Rightarrow> op list \<Rightarrow> player \<Rightarrow> player" where
  "run sn [] st = st"
| "run sn (x # xs) st = run sn xs (snd (step sn x st))"

section \<open>Notions of the specification and example data\<close>

text \<open>
  The plugins exposing a hook are those whose \<^verbatim>\<open>hooks\<close> bundle has an entry of that name,
  in registration order. A dispatch that stops at the first truthy return value invokes
  the hooks that return a falsy value, up to and including the first one that returns a
  truthy value. Its outcome is what the last hook invoked returned, and \<^verbatim>\<open>null\<close> when no
  hook was invoked.
\<close>

definition hookResult :: "plugin \<Rightarrow> string \<Rightarrow> jsval list \<Rightarrow> jsval" where
  "hookResult p hook argv = (case hooks p hook of None \<Rightarrow> JUndefined | Some f \<Rightarrow> f argv)"

definition exposing :: "(string \<times> plugin) list \<Rightarrow> string \<Rightarrow> (string \<times> plugin) list" where
  "exposing ps hook = filter (\<lambda>e. hooks (snd e) hook \<noteq> None) ps"

definition silent :: "string \<Rightarrow> jsval list \<Rightarrow> string \<times> plugin \<Rightarrow> bool" where
  "silent hook argv e = (\<not> truthy (hookResult (snd e) hook argv))"

definition hookInvoked :: "(string \<times> plugin) list \<Rightarrow> string \<Rightarrow> jsval list \<Rightarrow> (string \<times> plugin) list" where
  "hookInvoked ps hook argv =
     takeWhile (silent hook argv) (exposing ps hook) @
     take 1 (dropWhile (silent hook argv) (exposing ps hook))"

definition hookOutcome :: "jsval \<Rightarrow> (string \<times> plugin) list \<Rightarrow> string \<Rightarrow> jsval list \<Rightarrow> jsval" where
  "hookOutcome err ps hook argv =
     (if hookInvoked ps hook argv = [] then err
      else hookResult (snd (last (hookInvoked ps hook argv))) hook argv)"

text \<open>Example data: songs, a plugin that has a hook only inside its \<^verbatim>\<open>hooks\<close> bundle, a player.\<close>

definition exSong :: song where
  "exSong = \<lparr>uuid = ''u0'', songId = ''s0'', backendName = ''gmusic'',
             playback = \<lparr>startTime = 0, startPos = 0\<rparr>, prepared = False,
             cancelPrepare = True, prepareTimeout = None, songData = True\<rparr>"

definition exHeap :: "ref \<Rightarrow> song" where
  "exHeap r = (if r = 0 then exSong
               else if r = 1 then exSong\<lparr>uuid := ''u1'', songId := ''s1''\<rparr>
               else exSong\<lparr>uuid := ''u2'', songId := ''s2''\<rparr>)"

definition exOptions :: options where
  "exOptions = \<lparr>opt_queue = None, opt_nowPlaying = Undefined, opt_play = None,
                opt_repeat = None, opt_plugins = None, opt_backends = None,
                opt_volume = JUndefined, opt_songEndTimeout = None,
                opt_songPrepareTimeout = 5000\<rparr>"

definition exPlayer :: player where
  "exPlayer = constructor exHeap exOptions"

definition hookOnlyPlugin :: plugin where
  "hookOnlyPlugin = \<lparr>hooks = [''onSongEnd'' \<mapsto> (\<lambda>argv. JUndefined)], props = Map.empty\<rparr>"

text \<open>The calls one dispatch of a hook makes.\<close>

definition hookCalls :: "(string \<times> plugin) list \<Rightarrow> string \<Rightarrow> jsval list \<Rightarrow> event list" where
  "hookCalls ps hook argv = map (\<lambda>e. HookCall (fst e) hook argv) (hookInvoked ps hook argv)"

text \<open>The number of backends without the \<^verbatim>\<open>getPlaylists\<close> method.\<close>

definition lacking :: "(string \<times> backend) list \<Rightarrow> nat" where
  "lacking bs = length (filter (\<lambda>e. \<not> hasGetPlaylists (snd e)) bs)"


text \<open>A volume in [0,1]: a finite number between 0 and 1.\<close>

fun volumeOk :: "jsval \<Rightarrow> bool" where
  "volumeOk (JNum (Fin x)) = (0 \<le> x \<and> x \<le> 1)"
| "volumeOk v = False"

text \<open>An operation that is not a \<open>setVolume\<close> with an argument whose number is \<^verbatim>\<open>NaN\<close>.\<close>

fun setsNumber :: "(string \<Rightarrow> jsnum) \<Rightarrow> op \<Rightarrow> bool" where
  "setsNumber sn (SetVolume v userID) = (toNumber sn v \<noteq> NaN)"
| "setsNumber sn x = True"

fun isSetVolume :: "op \<Rightarrow> bool" where
  "isSetVolume (SetVolume v userID) = True"
| "isSetVolume x = False"


text \<open>The string conversion used in the examples: no string is numeric.\<close>

definition noNumber :: "string \<Rightarrow> jsnum" where
  "noNumber s = NaN"

text \<open>
  More example data: options with a volume; a plugin with the hook \<^verbatim>\<open>onSongPrepareError\<close>
  and a player with that plugin that has just begun to prepare song 0; a player with the
  songs 0 and 1 queued, song 0 prepared and now playing, \<open>play\<close> set; a player with the
  songs 0 and 1 queued and song 1, the last one, now playing.
\<close>

definition volumeOption :: "jsval \<Rightarrow> options" where
  "volumeOption v = exOptions\<lparr>opt_volume := v\<rparr>"

definition errorHookPlugin :: plugin where
  "errorHookPlugin =
     \<lparr>hooks = [''onSongPrepareError'' \<mapsto> (\<lambda>argv. JUndefined)], props = Map.empty\<rparr>"

definition preparingPlayer :: player where
  "preparingPlayer =
     snd (prepareSong (Ref 0) (ExternalDone 0)
            (exPlayer\<lparr>plugins := [(''rest'', errorHookPlugin)]\<rparr>))"


definition lastPlayer :: player where
  "lastPlayer =
     constructor exHeap
       (exOptions\<lparr>opt_queue := Some \<lparr>songs = [0, 1], playbackStart = False\<rparr>,
                  opt_nowPlaying := Ref 1\<rparr>)"

text \<open>A player with two backends, one of them without \<^verbatim>\<open>getPlaylists\<close>.\<close>

definition gmusic :: backend where
  "gmusic = \<lparr>bname = ''gmusic'', hasGetPlaylists = True\<rparr>"

definition localFiles :: backend where
  "localFiles = \<lparr>bname = ''file'', hasGetPlaylists = False\<rparr>"

definition twoBackends :: player where
  "twoBackends = exPlayer\<lparr>backends := [(''gmusic'', gmusic), (''file'', localFiles)]\<rparr>"

section \<open>The hook dispatcher: proofs\<close>

lemma exposing_Nil: "exposing [] hook = []"
  by (simp add: exposing_def)

lemma exposing_skip: "hooks p hook = None \<Longrightarrow> exposing ((n, p) # ps) hook = exposing ps hook"
  by (simp add: exposing_def)

lemma exposing_keep:
  "hooks p hook = Some f \<Longrightarrow> exposing ((n, p) # ps) hook = (n, p) # exposing ps hook"
  by (simp add: exposing_def)

lemma silent_iff:
  "hooks p hook = Some f \<Longrightarrow> silent hook argv (n, p) = (\<not> truthy (f argv))"
  by (simp add: silent_def hookResult_def)

lemma hookInvoked_skip:
  "hooks p hook = None \<Longrightarrow> hookInvoked ((n, p) # ps) hook argv = hookInvoked ps hook argv"
  by (simp add: hookInvoked_def exposing_skip)

lemma hookInvoked_stop:
  "hooks p hook = Some f \<Longrightarrow> truthy (f argv) \<Longrightarrow>
   hookInvoked ((n, p) # ps) hook argv = [(n, p)]"
  by (simp add: hookInvoked_def exposing_keep silent_iff)

lemma hookInvoked_go:
  "hooks p hook = Some f \<Longrightarrow> \<not> truthy (f argv) \<Longrightarrow>
   hookInvoked ((n, p) # ps) hook argv = (n, p) # hookInvoked ps hook argv"
  by (simp add: hookInvoked_def exposing_keep silent_iff)

lemma hookOutcome_skip:
  "hooks p hook = None \<Longrightarrow> hookOutcome err ((n, p) # ps) hook argv = hookOutcome err ps hook argv"
  by (simp add: hookOutcome_def hookInvoked_skip)

lemma hookOutcome_stop:
  "hooks p hook = Some f \<Longrightarrow> truthy (f argv) \<Longrightarrow>
   hookOutcome err ((n, p) # ps) hook argv = f argv"
  by (simp add: hookOutcome_def hookInvoked_stop hookResult_def)

lemma hookOutcome_go:
  "hooks p hook = Some f \<Longrightarrow> \<not> truthy (f argv) \<Longrightarrow>
   hookOutcome err ((n, p) # ps) hook argv = hookOutcome (f argv) ps hook argv"
  by (simp add: hookOutcome_def hookInvoked_go hookResult_def)

lemma callHooks_find_spec:
  "callHooks_find ps hook argv err =
     (hookOutcome err ps hook argv,
      map (\<lambda>e. HookCall (fst e) hook argv) (hookInvoked ps hook argv))"
proof (induction ps arbitrary: err)
  case Nil
  show ?case by (simp add: hookOutcome_def hookInvoked_def exposing_Nil)
next
  case (Cons a ps)
  obtain n p where a: "a = (n, p)" by (cases a)
  show ?case
  proof (cases "hooks p hook")
    case None
    then show ?thesis using Cons[of err]
      by (simp add: a hookOutcome_skip hookInvoked_skip)
  next
    case (Some f)
    show ?thesis
    proof (cases "truthy (f argv)")
      case True
      then show ?thesis using Some
        by (simp add: a hookOutcome_stop hookInvoked_stop)
    next
      case False
      then show ?thesis using Some Cons[of "f argv"]
        by (simp add: a hookOutcome_go hookInvoked_go)
    qed
  qed
qed

lemma hookOutcome_truthy:
  "truthy (hookOutcome JNull ps hook argv) =
     list_ex (\<lambda>e. truthy (hookResult (snd e) hook argv)) (exposing ps hook)"
proof -
  let ?xs = "exposing ps hook" and ?s = "silent hook argv"
  show ?thesis
  proof (cases "dropWhile ?s ?xs")
    case Nil
    then have all: "\<forall>e \<in> set ?xs. ?s e"
      by (metis dropWhile_eq_Nil_conv)
    then have tw: "takeWhile ?s ?xs = ?xs"
      by (simp add: takeWhile_eq_all_conv)
    have inv: "hookInvoked ps hook argv = ?xs"
      unfolding hookInvoked_def Nil tw by simp
    have none: "\<not> list_ex (\<lambda>e. truthy (hookResult (snd e) hook argv)) ?xs"
      using all by (simp add: list_ex_iff silent_def)
    show ?thesis
    proof (cases "?xs = []")
      case True
      then show ?thesis using inv by (simp add: hookOutcome_def)
    next
      case False
      then have "?s (last ?xs)" using all by simp
      then show ?thesis using none inv False by (simp add: hookOutcome_def silent_def)
    qed
  next
    case (Cons e es)
    then have e: "\<not> ?s e" by (metis hd_dropWhile list.sel(1) list.distinct(1))
    have "e \<in> set (dropWhile ?s ?xs)" using Cons by simp
    then have "e \<in> set ?xs" by (metis set_dropWhileD)
    then have ex: "list_ex (\<lambda>e. truthy (hookResult (snd e) hook argv)) ?xs"
      using e by (auto simp: list_ex_iff silent_def)
    have "hookInvoked ps hook argv = takeWhile ?s ?xs @ [e]"
      using Cons by (simp add: hookInvoked_def)
    then show ?thesis using e ex by (simp add: hookOutcome_def silent_def)
  qed
qed


lemma callHooks_state:
  "snd (callHooks hook argv st) = emit (hookCalls (plugins st) hook argv) st"
  by (simp add: callHooks_def callHooks_find_spec hookCalls_def)

text \<open>
  C1. For every hook name and argument list, \<open>callHooks\<close> invokes, in registration order
  and each with \<open>argv\<close>, the hooks of the plugins exposing that hook, up to and including
  the first whose return value is truthy, and changes nothing else; it returns that truthy
  value; when no hook fired it returns \<^verbatim>\<open>null\<close>, and when none returned a truthy value it
  returns what the last one returned, a falsy value. So the result is truthy exactly when
  a hook of an exposing plugin returns a truthy value.
\<close>

theorem callHooks_dispatch:
  "callHooks hook argv st =
     (hookOutcome JNull (plugins st) hook argv,
      emit (map (\<lambda>e. HookCall (fst e) hook argv) (hookInvoked (plugins st) hook argv)) st)
   \<and> truthy (hookOutcome JNull (plugins st) hook argv) =
       list_ex (\<lambda>e. truthy (hookResult (snd e) hook argv)) (exposing (plugins st) hook)"
  by (simp add: callHooks_def callHooks_find_spec hookOutcome_truthy)

lemma numHooks_find_count:
  "numHooks_find ps hook cnt =
     cnt + length (filter (\<lambda>e. truthy (plugin_get (snd e) hook)) ps)"
  by (induction ps arbitrary: cnt) auto

text \<open>\<open>numHooks\<close> counts the plugins whose top-level property of that name is truthy.\<close>

lemma numHooks_counts_properties:
  "numHooks hook st = length (filter (\<lambda>e. truthy (plugin_get (snd e) hook)) (plugins st))"
  by (simp add: numHooks_def numHooks_find_count)

text \<open>
  C2. \<open>numHooks(hook)\<close> should be the number of plugins whose hook function
  \<open>callHooks(hook)\<close> invokes. It is not: for a player whose only plugin registers
  \<^verbatim>\<open>onSongEnd\<close> in its \<^verbatim>\<open>hooks\<close> bundle, \<open>callHooks\<close> invokes that hook and \<open>numHooks\<close>
  answers 0, because it reads \<^verbatim>\<open>plugin[hook]\<close> where \<open>callHooks\<close> reads
  \<^verbatim>\<open>plugin.hooks[hook]\<close>.
\<close>

theorem numHooks_misses_registered_hook:
  "numHooks ''onSongEnd'' (exPlayer\<lparr>plugins := [(''rest'', hookOnlyPlugin)]\<rparr>) = 0
   \<and> trace (snd (callHooks ''onSongEnd'' [JSong 0]
               (exPlayer\<lparr>plugins := [(''rest'', hookOnlyPlugin)]\<rparr>)))
       = [HookCall ''rest'' ''onSongEnd'' [JSong 0]]"
  by (simp add: numHooks_def plugin_get_def hookOnlyPlugin_def callHooks_def emit_def
      exPlayer_def constructor_def exOptions_def)

section \<open>Initialization: proofs\<close>

lemma emit_simps:
  "trace (emit evs st) = trace st @ evs"
  "plugins (emit evs st) = plugins st"
  "backends (emit evs st) = backends st"
  by (simp_all add: emit_def)

text \<open>\<open>extend_obj\<close> merges: the entries of the source override those of the destination.\<close>

lemma extend_obj_merge: "map_of (extend_obj dst src) = map_of dst ++ map_of (rev src)"
proof (induction src arbitrary: dst)
  case Nil
  show ?case by (simp add: extend_obj_def)
next
  case (Cons e src)
  have "map_of (extend_obj dst (e # src)) = map_of (extend_obj (AList.update (fst e) (snd e) dst) src)"
    by (simp add: extend_obj_def)
  also have "\<dots> = map_of (AList.update (fst e) (snd e) dst) ++ map_of (rev src)"
    by (rule Cons.IH)
  also have "\<dots> = (map_of dst ++ [fst e \<mapsto> snd e]) ++ map_of (rev src)"
    by (simp add: update_conv')
  also have "\<dots> = map_of dst ++ map_of (rev (e # src))"
    by (cases e) (simp add: map_add_assoc)
  finally show ?case .
qed

text \<open>
  C9. \<open>init\<close> runs the four stages in order: builtin plugins, configured plugins,
  builtin backends, configured backends. The trace of each stage is the assignment of
  the merged map, then the calls of that stage's hook (dispatched over the plugins
  merged so far), then the call of the next loader; \<open>init\<close> itself only calls the first
  loader, and the hooks of \<^verbatim>\<open>onReady\<close> are called at the very end of the fourth stage,
  after the backends of that stage were merged and its hook was called.
\<close>

theorem init_stage_order:
  "trace (init st) = trace st @ [ModuleLoad BuiltinPlugins]
   \<and> plugins (init_builtinPluginsLoaded p1 (init st)) = p1
   \<and> trace (init_builtinPluginsLoaded p1 (init st)) =
       trace (init st) @ [PluginsAssigned (map fst p1)] @
       hookCalls p1 ''onBuiltinPluginsInitialized'' [] @ [ModuleLoad Plugins]
   \<and> plugins (init_pluginsLoaded p2 (init_builtinPluginsLoaded p1 (init st))) =
       extend_obj p1 p2
   \<and> trace (init_pluginsLoaded p2 (init_builtinPluginsLoaded p1 (init st))) =
       trace (init_builtinPluginsLoaded p1 (init st)) @
       [PluginsAssigned (map fst (extend_obj p1 p2))] @
       hookCalls (extend_obj p1 p2) ''onPluginsInitialized'' [] @ [ModuleLoad BuiltinBackends]
   \<and> backends (init_builtinBackendsLoaded b1
        (init_pluginsLoaded p2 (init_builtinPluginsLoaded p1 (init st)))) = b1
   \<and> trace (init_builtinBackendsLoaded b1
        (init_pluginsLoaded p2 (init_builtinPluginsLoaded p1 (init st)))) =
       trace (init_pluginsLoaded p2 (init_builtinPluginsLoaded p1 (init st))) @
       [BackendsAssigned (map fst b1)] @
       hookCalls (extend_obj p1 p2) ''onBuiltinBackendsInitialized'' [] @ [ModuleLoad Backends]
   \<and> backends (init_backendsLoaded b2 (init_builtinBackendsLoaded b1
        (init_pluginsLoaded p2 (init_builtinPluginsLoaded p1 (init st))))) = extend_obj b1 b2
   \<and> plugins (init_backendsLoaded b2 (init_builtinBackendsLoaded b1
        (init_pluginsLoaded p2 (init_builtinPluginsLoaded p1 (init st))))) = extend_obj p1 p2
   \<and> trace (init_backendsLoaded b2 (init_builtinBackendsLoaded b1
        (init_pluginsLoaded p2 (init_builtinPluginsLoaded p1 (init st))))) =
       trace (init_builtinBackendsLoaded b1
        (init_pluginsLoaded p2 (init_builtinPluginsLoaded p1 (init st)))) @
       [BackendsAssigned (map fst (extend_obj b1 b2))] @
       hookCalls (extend_obj p1 p2) ''onBackendsInitialized'' [] @
       hookCalls (extend_obj p1 p2) ''onReady'' []"
  by (simp add: init_def init_builtinPluginsLoaded_def init_pluginsLoaded_def
      init_builtinBackendsLoaded_def init_backendsLoaded_def Let_def callHooks_state emit_simps)

section \<open>The playback state machine: proofs\<close>

lemma startPlayback_empty:
  "\<not> present (nowPlaying st) \<Longrightarrow> songs (queue st) = [] \<Longrightarrow>
   startPlayback position st = (Some QueueEmpty, st\<lparr>nowPlaying := Undefined\<rparr>)"
  by (simp add: startPlayback_def songAt_def)

text \<open>
  C4. \<open>startPlayback()\<close> with \<open>nowPlaying\<close> null and an empty queue should fail with the
  queue-empty error and leave \<open>nowPlaying\<close> as it was. On a new player with no options
  it throws that error, and \<open>play\<close>, the queue and the songs are as before, but
  \<open>nowPlaying\<close>, which was \<^verbatim>\<open>null\<close>, is now \<^verbatim>\<open>undefined\<close>: the assignment
  \<^verbatim>\<open>this.nowPlaying = this.queue.songs[0]\<close> comes before the test.
\<close>

theorem startPlayback_empty_queue_changes_nowPlaying:
  "nowPlaying exPlayer = Null \<and> songs (queue exPlayer) = []
   \<and> startPlayback None exPlayer = (Some QueueEmpty, exPlayer\<lparr>nowPlaying := Undefined\<rparr>)
   \<and> nowPlaying (snd (startPlayback None exPlayer)) \<noteq> nowPlaying exPlayer"
  by (simp add: startPlayback_def exPlayer_def constructor_def exOptions_def songAt_def)

lemma findIndexFrom_none:
  "list_all (\<lambda>r. JStr (uuid (h r)) \<noteq> key) rs \<Longrightarrow> findIndexFrom h rs key i = - 1"
  by (induction rs arbitrary: i) auto

lemma findIndexFrom_hit:
  "list_all (\<lambda>r. JStr (uuid (h r)) \<noteq> key) pre \<Longrightarrow> JStr (uuid (h n)) = key \<Longrightarrow>
   findIndexFrom h (pre @ n # post) key i = i + int (length pre)"
  by (induction pre arbitrary: i) auto

lemma findSong_missing:
  "list_all (\<lambda>r. JStr (uuid (heap st r)) \<noteq> u) (songs (queue st)) \<Longrightarrow> findSong st u = Null"
  by (simp add: findSong_def findSongIndex_def findIndexFrom_none songAt_def)

text \<open>\<open>stopPlayback\<close> with and without a now-playing song.\<close>

lemma stopPlayback_present:
  "nowPlaying st = Ref m \<Longrightarrow> fst (stopPlayback pause now st) = None"
  by (simp add: stopPlayback_def Let_def clearTimeout_def split: option.splits)

lemma stopPlayback_absent:
  "\<not> present (nowPlaying st) \<Longrightarrow>
   stopPlayback pause now st =
     (Some TypeError, (clearTimeout (songEndTimeout st) st)\<lparr>play := False\<rparr>)"
  by (cases "nowPlaying st")
     (simp_all add: stopPlayback_def Let_def clearTimeout_def split: option.splits)

text \<open>
  C10. When \<open>uuid\<close> is not found in the queue, \<open>changeSong\<close> sets \<open>nowPlaying\<close> to
  \<^verbatim>\<open>null\<close> and calls \<open>stopPlayback()\<close>; that call clears the song-end timer, resets
  \<open>play\<close> and then reads \<^verbatim>\<open>np.playback.startPos\<close> of the null \<open>nowPlaying\<close>, before its test
  \<^verbatim>\<open>if (np)\<close>: it throws a TypeError, which ends \<open>changeSong\<close> too.
\<close>

theorem changeSong_missing_uuid:
  "list_all (\<lambda>r. JStr (uuid (heap st r)) \<noteq> u) (songs (queue st)) \<Longrightarrow>
   changeSong u now st =
     stopPlayback False now ((clearTimeout (songEndTimeout st) st)\<lparr>nowPlaying := Null\<rparr>)
   \<and> stopPlayback False now ((clearTimeout (songEndTimeout st) st)\<lparr>nowPlaying := Null\<rparr>) =
       (Some TypeError,
        (clearTimeout (songEndTimeout st) st)\<lparr>nowPlaying := Null, play := False\<rparr>)"
proof -
  assume a: "list_all (\<lambda>r. JStr (uuid (heap st r)) \<noteq> u) (songs (queue st))"
  let ?st1 = "clearTimeout (songEndTimeout st) st"
  have q: "queue ?st1 = queue st" "heap ?st1 = heap st"
    by (simp_all add: clearTimeout_def split: option.splits)
  have f: "findSong ?st1 u = Null"
    using a by (intro findSong_missing) (simp add: q)
  have s: "stopPlayback False now (?st1\<lparr>nowPlaying := Null\<rparr>) =
       (Some TypeError, ?st1\<lparr>nowPlaying := Null, play := False\<rparr>)"
    by (simp add: stopPlayback_def Let_def clearTimeout_def split: option.splits)
  show ?thesis using f s by (simp add: changeSong_def Let_def andThen_def)
qed


theorem changeSong_missing_uuid_witness:
  "list_all (\<lambda>r. JStr (uuid (heap lastPlayer r)) \<noteq> JStr ''nope'') (songs (queue lastPlayer))
   \<and> changeSong (JStr ''nope'') 1000 lastPlayer =
       (Some TypeError, lastPlayer\<lparr>nowPlaying := Null, play := False\<rparr>)"
proof -
  have h: "list_all (\<lambda>r. JStr (uuid (heap lastPlayer r)) \<noteq> JStr ''nope'')
             (songs (queue lastPlayer))"
    by (simp add: lastPlayer_def constructor_def exOptions_def exHeap_def exSong_def)
  have c: "clearTimeout (songEndTimeout lastPlayer) lastPlayer = lastPlayer"
    by (simp add: clearTimeout_def lastPlayer_def constructor_def exOptions_def)
  show ?thesis
    using h changeSong_missing_uuid[OF h, of 1000] by (simp add: c)
qed

lemma andThen_keeps:
  "P (snd r) \<Longrightarrow> (\<And>s. P s \<Longrightarrow> P (snd (f s))) \<Longrightarrow> P (snd (andThen r f))"
  by (simp add: andThen_def split: option.splits)

lemma startPlayback_present:
  "nowPlaying st = Ref m \<Longrightarrow>
   startPlayback position st =
     (None, emit [SongPrepare m (PlaybackHandler (case position of None \<Rightarrow> 0 | Some p \<Rightarrow> p))] st)"
  by (simp add: startPlayback_def)

lemma np_basic:
  "nowPlaying (emit evs st) = nowPlaying st"
  "nowPlaying (clearTimeout t st) = nowPlaying st"
  "nowPlaying (updSong r f st) = nowPlaying st"
  "nowPlaying (setPrepareTimeout r st) = nowPlaying st"
  "nowPlaying (clearPrepareTimeout r st) = nowPlaying st"
  by (simp_all add: emit_def clearTimeout_def updSong_def setPrepareTimeout_def setTimeout_def
      clearPrepareTimeout_def Let_def split: option.splits)

lemma np_prepareSong_callDone:
  "nowPlaying st = Ref m \<Longrightarrow> nowPlaying (snd (prepareSong sg cb st)) = Ref m"
  "nowPlaying st = Ref m \<Longrightarrow> nowPlaying (snd (callDone cb args st)) = Ref m"
proof (induction sg cb st and cb args st rule: prepareSong_callDone.induct)
  case (1 sg cb st)
  show ?case
  proof (cases sg)
    case (Ref r)
    show ?thesis
    proof (cases "prepared (heap st r)")
      case True
      have "nowPlaying (snd (andThen
               (if playbackPending r st then startPlayback None st else (None, st))
               (callDone cb []))) = Ref m"
        by (rule andThen_keeps[where P = "\<lambda>s. nowPlaying s = Ref m"])
           (simp_all add: "1.prems" startPlayback_present np_basic "1.IH"[OF Ref True])
      then show ?thesis using Ref True by (simp add: prepareSong.simps)
    next
      case False
      then show ?thesis using Ref "1.prems" by (simp add: np_basic prepareSong.simps)
    qed
  qed (simp_all add: prepareSong.simps "1.prems")
next
  case (2 k args st)
  then show ?case by (simp add: np_basic)
next
  case (3 args st)
  then show ?case by simp
next
  case (4 cur args st)
  then show ?case by (simp split: nullable.splits list.splits)
qed

lemma np_prepareSongs:
  "nowPlaying st = Ref m \<Longrightarrow> nowPlaying (snd (prepareSongs st)) = Ref m"
  by (simp add: prepareSongs_def np_prepareSong_callDone)

text \<open>
  C8. \<open>songEnd()\<close> when the now-playing song is the last queued song (and its uuid is at
  no earlier place of the queue): if \<open>repeat\<close> is false, no song change is made, and
  \<open>prepareSongs\<close> runs on the state left by the \<^verbatim>\<open>onSongEnd\<close> hooks, so the now-playing
  song is still the last one; if \<open>repeat\<close> is true, \<open>changeSong\<close> makes the first queued
  song the now-playing one and starts its playback, and \<open>prepareSongs\<close> runs after that.
\<close>

theorem songEnd_at_last_song:
  assumes np: "nowPlaying st = Ref n"
    and q: "songs (queue st) = pre @ [n]"
    and last: "list_all (\<lambda>r. uuid (heap st r) \<noteq> uuid (heap st n)) pre"
  shows "(\<not> repeat st \<longrightarrow>
            songEnd now st =
              prepareSongs (emit (hookCalls (plugins st) ''onSongEnd'' [JSong n]) st)
            \<and> nowPlaying (snd (songEnd now st)) = Ref n)
       \<and> (repeat st \<longrightarrow>
            songEnd now st =
              prepareSongs
                (emit [SongPrepare (hd (pre @ [n])) (PlaybackHandler 0)]
                   ((clearTimeout (songEndTimeout st)
                      (emit (hookCalls (plugins st) ''onSongEnd'' [JSong n]) st))
                    \<lparr>nowPlaying := Ref (hd (pre @ [n]))\<rparr>))
            \<and> nowPlaying (snd (songEnd now st)) = Ref (hd (pre @ [n])))"
proof -
  let ?st1 = "emit (hookCalls (plugins st) ''onSongEnd'' [JSong n]) st"
  let ?f = "hd (pre @ [n])"
  have same: "queue ?st1 = queue st" "heap ?st1 = heap st" "repeat ?st1 = repeat st"
    "nowPlaying ?st1 = nowPlaying st" "songEndTimeout ?st1 = songEndTimeout st"
    by (simp_all add: emit_def)
  have la: "list_all (\<lambda>r. JStr (uuid (heap st r)) \<noteq> JStr (uuid (heap st n))) pre"
    using last by simp
  have idx: "findSongIndex st (JStr (uuid (heap st n))) = int (length pre)"
    using findIndexFrom_hit[OF la refl, of "[]" 0] by (simp add: findSongIndex_def q)
  have nxt: "songAt ?st1 (int (length pre) + 1) = Undefined"
    by (simp add: songAt_def same q)
  have unfold: "songEnd now st =
      andThen (if repeat st then changeSong (uuidAtIndex ?st1 0) now ?st1 else (None, ?st1))
        prepareSongs"
    using np by (simp add: songEnd_def Let_def callHooks_state idx nxt same)
  have first: "songAt ?st1 0 = Ref ?f"
    by (cases pre) (simp_all add: songAt_def same q)
  have u0: "uuidAtIndex ?st1 0 = JStr (uuid (heap st ?f))"
    by (simp add: uuidAtIndex_def first same)
  let ?st2 = "clearTimeout (songEndTimeout st) ?st1"
  have same2: "queue ?st2 = queue st" "heap ?st2 = heap st"
    by (simp_all add: clearTimeout_def same split: option.splits)
  have fi: "findSongIndex ?st2 (JStr (uuid (heap st ?f))) = 0"
    by (cases pre) (simp_all add: findSongIndex_def same2 q)
  have first2: "songAt ?st2 0 = Ref ?f"
    by (cases pre) (simp_all add: songAt_def same2 q)
  have fs: "findSong ?st2 (JStr (uuid (heap st ?f))) = Ref ?f"
    by (simp add: findSong_def fi first2)
  have cs: "changeSong (uuidAtIndex ?st1 0) now ?st1 =
      (None, emit [SongPrepare ?f (PlaybackHandler 0)] (?st2\<lparr>nowPlaying := Ref ?f\<rparr>))"
    by (simp add: changeSong_def Let_def u0 same fs andThen_def startPlayback_present)
  show ?thesis
  proof (cases "repeat st")
    case False
    have "songEnd now st = prepareSongs ?st1"
      using unfold False by (simp add: andThen_def)
    moreover have "nowPlaying (snd (prepareSongs ?st1)) = Ref n"
      by (rule np_prepareSongs) (simp add: same np)
    ultimately show ?thesis using False by simp
  next
    case True
    have "songEnd now st =
        prepareSongs (emit [SongPrepare ?f (PlaybackHandler 0)] (?st2\<lparr>nowPlaying := Ref ?f\<rparr>))"
      using unfold True by (simp add: cs andThen_def)
    moreover have "nowPlaying (snd (prepareSongs
        (emit [SongPrepare ?f (PlaybackHandler 0)] (?st2\<lparr>nowPlaying := Ref ?f\<rparr>)))) = Ref ?f"
      by (rule np_prepareSongs) (simp add: emit_def)
    ultimately show ?thesis using True by simp
  qed
qed


theorem songEnd_at_last_song_witness:
  "nowPlaying lastPlayer = Ref 1 \<and> songs (queue lastPlayer) = [0] @ [1]
   \<and> list_all (\<lambda>r. uuid (heap lastPlayer r) \<noteq> uuid (heap lastPlayer 1)) [0]
   \<and> \<not> repeat lastPlayer
   \<and> nowPlaying (snd (songEnd 1000 lastPlayer)) = Ref 1
   \<and> nowPlaying (snd (songEnd 1000 (lastPlayer\<lparr>repeat := True\<rparr>))) = Ref 0"
proof -
  have a: "nowPlaying lastPlayer = Ref 1" "songs (queue lastPlayer) = [0] @ [1]"
    "list_all (\<lambda>r. uuid (heap lastPlayer r) \<noteq> uuid (heap lastPlayer 1)) [0]"
    "\<not> repeat lastPlayer"
    by (simp_all add: lastPlayer_def constructor_def exOptions_def exHeap_def exSong_def)
  have b: "nowPlaying (lastPlayer\<lparr>repeat := True\<rparr>) = Ref 1"
    "songs (queue (lastPlayer\<lparr>repeat := True\<rparr>)) = [0] @ [1]"
    "list_all (\<lambda>r. uuid (heap (lastPlayer\<lparr>repeat := True\<rparr>) r)
                  \<noteq> uuid (heap (lastPlayer\<lparr>repeat := True\<rparr>) 1)) [0]"
    using a by simp_all
  have rp: "repeat (lastPlayer\<lparr>repeat := True\<rparr>)" by simp
  have r1: "nowPlaying (snd (songEnd 1000 lastPlayer)) = Ref 1"
    using songEnd_at_last_song[OF a(1) a(2) a(3), of 1000] a(4) by blast
  have "nowPlaying (snd (songEnd 1000 (lastPlayer\<lparr>repeat := True\<rparr>))) = Ref (hd ([0] @ [1]))"
    using songEnd_at_last_song[OF b(1) b(2) b(3), of 1000] rp by blast
  then have r2: "nowPlaying (snd (songEnd 1000 (lastPlayer\<lparr>repeat := True\<rparr>))) = Ref 0"
    by simp
  show ?thesis using a r1 r2 by blast
qed

section \<open>The preparation pipeline: proofs\<close>

lemma preparingPlayer_state:
  "timers preparingPlayer = [(0, PrepareWatchdog 0)]
   \<and> prepareTimeout (heap preparingPlayer 0) = Some 0
   \<and> cancelPrepare (heap preparingPlayer 0)
   \<and> songData (heap preparingPlayer 0)
   \<and> plugins preparingPlayer = [(''rest'', errorHookPlugin)]
   \<and> trace preparingPlayer = [SongPrepare 0 (ProgressHandler 0 (ExternalDone 0))]"
  by (simp add: preparingPlayer_def exPlayer_def constructor_def exOptions_def exHeap_def
      exSong_def prepareSong.simps setPrepareTimeout_def setTimeout_def clearTimeout_def
      updSong_def emit_def)

text \<open>An error report only runs the callback with the error.\<close>

lemma prepareSong_onProgress_error:
  "truthy err \<Longrightarrow>
   prepareSong_onProgress r (ExternalDone k) err chunk done st =
     (None, emit [DoneCalled k [err]] st)"
  by (simp add: prepareSong_onProgress_def)

text \<open>
  C3. When the fetch of a song reports an error, the pipeline should invoke
  \<open>done(error)\<close>, clear the watchdog, drop \<open>cancelPrepare\<close>, fire \<^verbatim>\<open>onSongPrepareError\<close>
  and discard the buffered data. For a player with a plugin that has that hook and a song
  whose preparation has just begun, the error report invokes \<open>done(error)\<close> and nothing
  else: the watchdog is still pending, the song still has \<open>cancelPrepare\<close> and its
  data, and the hook was not called. The steps the claim lists are those of
  \<open>prepareErrCallback\<close>, which nothing calls.
\<close>

theorem prepare_error_only_calls_done:
  "prepareSong_onProgress 0 (ExternalDone 0) (JStr ''fetch failed'') JUndefined JUndefined
     preparingPlayer
     = (None, emit [DoneCalled 0 [JStr ''fetch failed'']] preparingPlayer)
   \<and> trace (emit [DoneCalled 0 [JStr ''fetch failed'']] preparingPlayer) =
       [SongPrepare 0 (ProgressHandler 0 (ExternalDone 0)),
        DoneCalled 0 [JStr ''fetch failed'']]
   \<and> timers (emit [DoneCalled 0 [JStr ''fetch failed'']] preparingPlayer) =
       [(0, PrepareWatchdog 0)]
   \<and> prepareTimeout (heap (emit [DoneCalled 0 [JStr ''fetch failed'']] preparingPlayer) 0)
       = Some 0
   \<and> cancelPrepare (heap (emit [DoneCalled 0 [JStr ''fetch failed'']] preparingPlayer) 0)
   \<and> songData (heap (emit [DoneCalled 0 [JStr ''fetch failed'']] preparingPlayer) 0)
   \<and> hooks errorHookPlugin ''onSongPrepareError'' \<noteq> None"
  using preparingPlayer_state
  by (simp add: prepareSong_onProgress_def emit_def errorHookPlugin_def)

text \<open>
  What \<open>prepareErrCallback\<close> would do on the same state: it drops \<open>cancelPrepare\<close>,
  clears the watchdog, calls the callback with \<^verbatim>\<open>true\<close>, calls the hook, discards the data,
  and then throws on the registry the player does not have.
\<close>

lemma prepareErrCallback_cleans_up:
  "fst (prepareErrCallback 0 (JStr ''fetch failed'') (ExternalDone 0) preparingPlayer)
     = Some TypeError
   \<and> trace (snd (prepareErrCallback 0 (JStr ''fetch failed'') (ExternalDone 0) preparingPlayer))
       = [SongPrepare 0 (ProgressHandler 0 (ExternalDone 0)),
          DoneCalled 0 [JBool True],
          HookCall ''rest'' ''onSongPrepareError'' [JSong 0, JStr ''fetch failed'']]
   \<and> timers (snd (prepareErrCallback 0 (JStr ''fetch failed'') (ExternalDone 0) preparingPlayer))
       = []
   \<and> \<not> cancelPrepare (heap (snd (prepareErrCallback 0 (JStr ''fetch failed'')
                                   (ExternalDone 0) preparingPlayer)) 0)
   \<and> \<not> songData (heap (snd (prepareErrCallback 0 (JStr ''fetch failed'')
                              (ExternalDone 0) preparingPlayer)) 0)"
  using preparingPlayer_state
  by (simp add: prepareErrCallback_def Let_def andThen_def clearPrepareTimeout_def
      clearTimeout_def updSong_def emit_def prepareError_def callHooks_def errorHookPlugin_def)




section \<open>The aggregator: proofs\<close>

lemma backends_emit: "backends (emit evs st) = backends st"
  by (simp add: emit_def)

lemma backends_filterResults: "backends (snd (filterResults rs acc st)) = backends st"
proof (induction rs arbitrary: acc st)
  case Nil
  show ?case by simp
next
  case (Cons r rs)
  obtain err st1 where c: "callHooks ''preAddSearchResult'' [JSong r] st = (err, st1)"
    by (cases "callHooks ''preAddSearchResult'' [JSong r] st")
  have "st1 = snd (callHooks ''preAddSearchResult'' [JSong r] st)" using c by simp
  then have b: "backends st1 = backends st" by (simp add: callHooks_state backends_emit)
  show ?case using Cons.IH[of _ st1] b by (simp add: c)
qed

lemma gotAll_fired:
  "resultCnt (gotAll st j) = resultCnt j"
  "length (fired (gotAll st j)) =
     length (fired j) + (if length (backends st) \<le> resultCnt j then 1 else 0)"
  by (simp_all add: gotAll_def)

lemma search_report_step:
  "backends (snd (search_report e (j, st))) = backends st"
  "resultCnt (fst (search_report e (j, st))) = resultCnt j + 1"
  "length (fired (fst (search_report e (j, st)))) =
     length (fired j) + (if length (backends st) \<le> resultCnt j + 1 then 1 else 0)"
proof -
  obtain b rep where e: "e = (b, rep)" by (cases e)
  show "backends (snd (search_report e (j, st))) = backends st"
  proof (cases rep)
    case (Songs rs)
    obtain kept st1 where f: "filterResults rs [] st = (kept, st1)"
      by (cases "filterResults rs [] st")
    have "backends st1 = backends st" using backends_filterResults[of rs "[]" st] f by simp
    then show ?thesis by (simp add: e Songs search_onResults_def f)
  next
    case (Failed x)
    then show ?thesis by (simp add: e search_onError_def)
  qed
  show "resultCnt (fst (search_report e (j, st))) = resultCnt j + 1"
    by (cases rep) (auto simp: e search_onResults_def search_onError_def gotAll_fired split: prod.splits)
  show "length (fired (fst (search_report e (j, st)))) =
     length (fired j) + (if length (backends st) \<le> resultCnt j + 1 then 1 else 0)"
  proof (cases rep)
    case (Songs rs)
    obtain kept st1 where f: "filterResults rs [] st = (kept, st1)"
      by (cases "filterResults rs [] st")
    have "backends st1 = backends st" using backends_filterResults[of rs "[]" st] f by simp
    then show ?thesis by (simp add: e Songs search_onResults_def f gotAll_fired)
  next
    case (Failed x)
    then show ?thesis by (simp add: e search_onError_def gotAll_fired)
  qed
qed

lemma search_run_snoc: "search_run (xs @ [x]) js = search_report x (search_run xs js)"
  by (simp add: search_run_def)

lemma search_run_count:
  "resultCnt j + length sched \<le> length (backends st) \<Longrightarrow>
   backends (snd (search_run sched (j, st))) = backends st
   \<and> resultCnt (fst (search_run sched (j, st))) = resultCnt j + length sched
   \<and> length (fired (fst (search_run sched (j, st)))) =
       length (fired j) +
       (if sched \<noteq> [] \<and> resultCnt j + length sched = length (backends st) then 1 else 0)"
proof (induction sched rule: rev_induct)
  case Nil
  show ?case by (simp add: search_run_def)
next
  case (snoc x xs)
  obtain j' st' where r: "search_run xs (j, st) = (j', st')"
    by (cases "search_run xs (j, st)")
  have ih: "backends st' = backends st" "resultCnt j' = resultCnt j + length xs"
    "length (fired j') = length (fired j)"
    using snoc r by auto
  show ?case
    using search_report_step[of x j' st'] snoc.prems
    by (simp add: search_run_snoc r ih)
qed

text \<open>
  With at least one backend, and every backend reporting once, in any order:
  the callback of \<open>searchBackends\<close> is called once, and not before the last report.
\<close>

lemma searchBackends_joins_once:
  assumes ne: "backends st \<noteq> []"
    and all: "mset (map fst sched) = mset (map snd (backends st))"
  shows "length (fired (fst (search_run sched (searchBackends query st)))) = 1
       \<and> (\<forall>k < length sched.
            fired (fst (search_run (take k sched) (searchBackends query st))) = [])"
proof -
  let ?st0 = "emit (map (\<lambda>e. SearchCall (bname (snd e)) query) (backends st)) st"
  have len: "length sched = length (backends st)"
    using all by (metis length_map size_mset)
  have b0: "backends ?st0 = backends st" by (simp add: backends_emit)
  have sb: "searchBackends query st = (join0, ?st0)" by (simp add: searchBackends_def)
  have full: "length (fired (fst (search_run sched (join0, ?st0)))) = 1"
    using search_run_count[of join0 sched ?st0] ne len by (auto simp: join0_def b0)
  have part: "fired (fst (search_run (take k sched) (join0, ?st0))) = []" if "k < length sched" for k
    using search_run_count[of join0 "take k sched" ?st0] that len by (auto simp: join0_def b0)
  show ?thesis using full part by (simp add: sb)
qed


lemma getPlaylists_each_count:
  "resultCnt j + lacking bs \<le> length (backends st) \<Longrightarrow>
   backends (snd (getPlaylists_each bs (j, st))) = backends st
   \<and> resultCnt (fst (getPlaylists_each bs (j, st))) = resultCnt j + lacking bs
   \<and> allResults (fst (getPlaylists_each bs (j, st))) = allResults j
   \<and> length (fired (fst (getPlaylists_each bs (j, st)))) =
       length (fired j) +
       (if lacking bs \<noteq> 0 \<and> resultCnt j + lacking bs = length (backends st) then 1 else 0)"
proof (induction bs arbitrary: j st)
  case Nil
  show ?case by (simp add: lacking_def)
next
  case (Cons a bs)
  obtain n b where a: "a = (n, b)" by (cases a)
  show ?case
  proof (cases "hasGetPlaylists b")
    case True
    have l: "lacking ((n, b) # bs) = lacking bs" using True by (simp add: lacking_def)
    show ?thesis
      using Cons.IH[of j "emit [GetPlaylistsCall (bname b)] st"] Cons.prems True
      by (simp add: a l backends_emit)
  next
    case False
    have l: "lacking ((n, b) # bs) = Suc (lacking bs)" using False by (simp add: lacking_def)
    let ?j1 = "gotAll st (j\<lparr>resultCnt := Suc (resultCnt j)\<rparr>)"
    have j1: "resultCnt ?j1 = Suc (resultCnt j)" "allResults ?j1 = allResults j"
      "length (fired ?j1) = length (fired j) +
         (if length (backends st) \<le> Suc (resultCnt j) then 1 else 0)"
      by (simp_all add: gotAll_def)
    have pre: "resultCnt ?j1 + lacking bs \<le> length (backends st)"
      using Cons.prems by (simp add: a l j1)
    show ?thesis
      using Cons.IH[OF pre] Cons.prems False
      by (auto simp add: a l j1)
  qed
qed

lemma playlists_step:
  "backends (snd (getPlaylists_onResults b err res (j, st))) = backends st"
  "resultCnt (fst (getPlaylists_onResults b err res (j, st))) = resultCnt j + 1"
  "length (fired (fst (getPlaylists_onResults b err res (j, st)))) =
     length (fired j) + (if length (backends st) \<le> resultCnt j + 1 then 1 else 0)"
  by (simp_all add: getPlaylists_onResults_def gotAll_fired)

lemma playlists_run_snoc:
  "playlists_run (xs @ [x]) js =
     getPlaylists_onResults (fst x) (fst (snd x)) (snd (snd x)) (playlists_run xs js)"
  by (simp add: playlists_run_def)

lemma playlists_run_count:
  "resultCnt j + length sched \<le> length (backends st) \<Longrightarrow>
   backends (snd (playlists_run sched (j, st))) = backends st
   \<and> resultCnt (fst (playlists_run sched (j, st))) = resultCnt j + length sched
   \<and> length (fired (fst (playlists_run sched (j, st)))) =
       length (fired j) +
       (if sched \<noteq> [] \<and> resultCnt j + length sched = length (backends st) then 1 else 0)"
proof (induction sched rule: rev_induct)
  case Nil
  show ?case by (simp add: playlists_run_def)
next
  case (snoc x xs)
  obtain j' st' where r: "playlists_run xs (j, st) = (j', st')"
    by (cases "playlists_run xs (j, st)")
  have ih: "backends st' = backends st" "resultCnt j' = resultCnt j + length xs"
    "length (fired j') = length (fired j)"
    using snoc r by auto
  show ?case
    using playlists_step[of "fst x" "fst (snd x)" "snd (snd x)" j' st'] snoc.prems
    by (simp add: playlists_run_snoc r ih)
qed

text \<open>
  The same for \<open>getPlaylists\<close>, where the backends that report are those with the method:
  the others are counted inside the loop and contribute no entry.
\<close>

lemma getPlaylists_joins_once:
  assumes ne: "backends st \<noteq> []"
    and all: "mset (map fst sched) = mset (filter hasGetPlaylists (map snd (backends st)))"
  shows "length (fired (fst (playlists_run sched (getPlaylists st)))) = 1
       \<and> (\<forall>k < length sched.
            fired (fst (playlists_run (take k sched) (getPlaylists st))) = [])
       \<and> allResults (fst (getPlaylists st)) = []"
proof -
  obtain j0 st0 where g: "getPlaylists st = (j0, st0)" by (cases "getPlaylists st")
  have ls: "length sched = length (filter hasGetPlaylists (map snd (backends st)))"
    using all by (metis length_map size_mset)
  have "length (filter hasGetPlaylists (map snd (backends st))) + lacking (backends st)
        = length (map snd (backends st))"
    unfolding lacking_def filter_map length_map comp_def
    using sum_length_filter_compl[of "\<lambda>e. hasGetPlaylists (snd e)" "backends st"] by simp
  then have tot: "length sched + lacking (backends st) = length (backends st)"
    using ls by simp
  have e: "backends st0 = backends st" "resultCnt j0 = lacking (backends st)"
    "allResults j0 = []"
    "length (fired j0) =
       (if lacking (backends st) \<noteq> 0 \<and> lacking (backends st) = length (backends st) then 1 else 0)"
    using getPlaylists_each_count[of join0 "backends st" st] tot g
    by (simp_all add: getPlaylists_def join0_def)
  have full: "length (fired (fst (playlists_run sched (j0, st0)))) = 1"
    using playlists_run_count[of j0 sched st0] ne tot e by (auto split: if_splits)
  have part: "fired (fst (playlists_run (take k sched) (j0, st0))) = []"
    if "k < length sched" for k
    using playlists_run_count[of j0 "take k sched" st0] that tot e by (auto split: if_splits)
  show ?thesis using full part e by (simp add: g)
qed


text \<open>
  Both at work: the second backend fails first, then the first one reports a song; the
  only backend with playlists reports them.
\<close>

lemma searchBackends_joins_once_example:
  "fired (fst (search_run [(localFiles, Failed (JStr ''down''))]
                 (searchBackends (JStr ''abba'') twoBackends))) = []
   \<and> length (fired (fst (search_run [(localFiles, Failed (JStr ''down'')), (gmusic, Songs [2])]
                 (searchBackends (JStr ''abba'') twoBackends)))) = 1"
proof -
  let ?sched = "[(localFiles, Failed (JStr ''down'')), (gmusic, Songs [2])]"
  have ne: "backends twoBackends \<noteq> []" by (simp add: twoBackends_def)
  have all: "mset (map fst ?sched) = mset (map snd (backends twoBackends))"
    by (simp add: twoBackends_def)
  have "(1::nat) < length ?sched" by simp
  then have "fired (fst (search_run (take 1 ?sched) (searchBackends (JStr ''abba'') twoBackends))) = []"
    using searchBackends_joins_once[OF ne all, of "JStr ''abba''"] by blast
  then show ?thesis
    using searchBackends_joins_once[OF ne all, of "JStr ''abba''"] by simp
qed

lemma getPlaylists_joins_once_example:
  "fired (fst (getPlaylists twoBackends)) = []
   \<and> length (fired (fst (playlists_run [(gmusic, JNull, JObject)] (getPlaylists twoBackends)))) = 1"
proof -
  let ?sched = "[(gmusic, JNull, JObject)]"
  have ne: "backends twoBackends \<noteq> []" by (simp add: twoBackends_def)
  have all: "mset (map fst ?sched) = mset (filter hasGetPlaylists (map snd (backends twoBackends)))"
    by (simp add: twoBackends_def gmusic_def localFiles_def)
  have "(0::nat) < length ?sched" by simp
  then have "fired (fst (playlists_run (take 0 ?sched) (getPlaylists twoBackends))) = []"
    using getPlaylists_joins_once[OF ne all] by blast
  then show ?thesis
    using getPlaylists_joins_once[OF ne all] by (simp add: playlists_run_def)
qed

text \<open>
  C6. For every set of registered backends, \<open>searchBackends\<close> and \<open>getPlaylists\<close> should
  invoke their callback exactly once. The test that calls it sits in the functions run
  on a backend's report and, in \<open>getPlaylists\<close>, in the loop over the backends: for a
  player without backends (the constructor's default) neither runs, so no backend is
  called, the player is unchanged, and the callback is never invoked.
\<close>

theorem aggregator_without_backends_never_calls_back:
  "backends exPlayer = []
   \<and> searchBackends (JStr ''abba'') exPlayer = (join0, exPlayer)
   \<and> getPlaylists exPlayer = (join0, exPlayer)
   \<and> fired (join0 :: (string \<times> ref) list join) = []
   \<and> fired (join0 :: jsval join) = []"
  by (simp add: searchBackends_def getPlaylists_def join0_def emit_def exPlayer_def
      constructor_def exOptions_def)

section \<open>Volume: proofs\<close>

named_theorems vol \<open>operations that leave the volume alone\<close>

lemma vol_emit [vol]: "volume (emit evs st) = volume st"
  by (simp add: emit_def)

lemma vol_clearTimeout [vol]: "volume (clearTimeout h st) = volume st"
  by (simp add: clearTimeout_def split: option.splits)

lemma vol_setTimeout [vol]: "volume (snd (setTimeout a st)) = volume st"
  by (simp add: setTimeout_def)

lemma vol_updSong [vol]: "volume (updSong r f st) = volume st"
  by (simp add: updSong_def)

lemma vol_callHooks [vol]: "volume (snd (callHooks hook argv st)) = volume st"
  by (simp add: callHooks_def vol split: prod.splits)

lemma vol_andThen:
  "volume (snd r) = v \<Longrightarrow> (\<And>s. volume s = v \<Longrightarrow> volume (snd (f s)) = v) \<Longrightarrow>
   volume (snd (andThen r f)) = v"
  by (simp add: andThen_def split: option.splits)

lemma vol_stopPlayback [vol]: "volume (snd (stopPlayback pause now st)) = volume st"
  by (simp add: stopPlayback_def Let_def vol split: nullable.splits)

lemma vol_startPlayback [vol]: "volume (snd (startPlayback position st)) = volume st"
  by (simp add: startPlayback_def Let_def vol split: nullable.splits)

lemma vol_startPlayback_onPrepared [vol]:
  "volume (snd (startPlayback_onPrepared pos err st)) = volume st"
  by (simp add: startPlayback_onPrepared_def vol split: nullable.splits)

lemma vol_changeSong [vol]: "volume (snd (changeSong u now st)) = volume st"
  unfolding changeSong_def Let_def
  by (rule vol_andThen) (simp_all add: vol)

lemma vol_setPrepareTimeout [vol]: "volume (setPrepareTimeout r st) = volume st"
  by (simp add: setPrepareTimeout_def Let_def vol setTimeout_def split: prod.splits)

lemma vol_clearPrepareTimeout [vol]: "volume (clearPrepareTimeout r st) = volume st"
  by (simp add: clearPrepareTimeout_def vol)

lemma vol_prepareError [vol]: "volume (prepareError r err st) = volume st"
  by (simp add: prepareError_def vol)

lemma vol_prepareSong_callDone:
  "volume (snd (prepareSong sg cb st)) = volume st"
  "volume (snd (callDone cb args st)) = volume st"
proof (induction sg cb st and cb args st rule: prepareSong_callDone.induct)
  case (1 sg cb st)
  show ?case
  proof (cases sg)
    case (Ref r)
    show ?thesis
    proof (cases "prepared (heap st r)")
      case True
      have "volume (snd (andThen
               (if playbackPending r st then startPlayback None st else (None, st))
               (callDone cb []))) = volume st"
        by (rule vol_andThen) (simp_all add: vol "1.IH"[OF Ref True])
      then show ?thesis using Ref True by (simp add: prepareSong.simps)
    next
      case False
      then show ?thesis using Ref by (simp add: vol prepareSong.simps)
    qed
  qed (simp_all add: prepareSong.simps)
next
  case (2 k args st)
  show ?case by (simp add: vol)
next
  case (3 args st)
  show ?case by simp
next
  case (4 cur args st)
  then show ?case by (simp split: nullable.splits list.splits)
qed


lemmas vol_prepareSong [vol] = vol_prepareSong_callDone(1)
lemmas vol_callDone [vol] = vol_prepareSong_callDone(2)

lemma vol_prepareProgCallback [vol]:
  "volume (snd (prepareProgCallback r bytesWritten done st)) = volume st"
  unfolding prepareProgCallback_def
  by (rule vol_andThen) (simp_all add: vol Let_def split: option.splits)

lemma vol_prepareErrCallback [vol]:
  "volume (snd (prepareErrCallback r err cb st)) = volume st"
  unfolding prepareErrCallback_def Let_def
  by (rule vol_andThen) (simp_all add: vol)

lemma vol_prepareSong_onProgress [vol]:
  "volume (snd (prepareSong_onProgress r cb err chunk done st)) = volume st"
proof (cases "truthy err")
  case True
  then show ?thesis by (simp add: prepareSong_onProgress_def vol)
next
  case False
  have "volume (snd (andThen
          (if truthy chunk then prepareProgCallback r chunk done st else (None, st))
          (\<lambda>st1. if truthy done then callDone cb [] (clearPrepareTimeout r st1)
                 else (None, st1)))) = volume st"
    by (rule vol_andThen) (simp_all add: vol)
  then show ?thesis using False by (simp add: prepareSong_onProgress_def)
qed

lemma vol_fireTimer [vol]: "volume (snd (fireTimer t st)) = volume st"
  by (simp add: fireTimer_def Let_def vol split: option.splits timer_action.splits)

lemma vol_prepareSongs [vol]: "volume (snd (prepareSongs st)) = volume st"
  by (simp add: prepareSongs_def vol split: nullable.splits)

lemma vol_songEnd [vol]: "volume (snd (songEnd now st)) = volume st"
proof (cases "nowPlaying st")
  case (Ref n)
  let ?st1 = "snd (callHooks ''onSongEnd'' [JSong n] st)"
  let ?i = "findSongIndex st (JStr (uuid (heap st n)))"
  have "volume (snd (andThen
          (case songAt ?st1 (?i + 1) of
             Ref x \<Rightarrow> changeSong (JStr (uuid (heap ?st1 x))) now ?st1
           | _ \<Rightarrow> (if repeat ?st1 then changeSong (uuidAtIndex ?st1 0) now ?st1
                   else (None, ?st1)))
          prepareSongs)) = volume st"
    by (rule vol_andThen) (simp_all add: vol split: nullable.splits)
  then show ?thesis using Ref by (simp add: songEnd_def Let_def)
qed (simp_all add: songEnd_def)

lemma vol_init [vol]:
  "volume (init st) = volume st"
  "volume (init_builtinPluginsLoaded ps st) = volume st"
  "volume (init_pluginsLoaded ps st) = volume st"
  "volume (init_builtinBackendsLoaded bs st) = volume st"
  "volume (init_backendsLoaded bs st) = volume st"
  by (simp_all add: init_def init_builtinPluginsLoaded_def init_pluginsLoaded_def
      init_builtinBackendsLoaded_def init_backendsLoaded_def Let_def vol)

lemma clamp_Fin:
  "math_min (Fin 1) (math_max (Fin 0) (Fin x)) = Fin (min 1 (max 0 x))"
  by (simp add: math_min_def math_max_def min_def max_def)

lemma clamp_cases:
  "n \<noteq> NaN \<Longrightarrow> volumeOk (JNum (math_min (Fin 1) (math_max (Fin 0) n)))"
  by (cases n) (simp_all add: math_min_def math_max_def)

lemma clamp_NaN: "math_min (Fin 1) (math_max (Fin 0) NaN) = NaN"
  by (simp add: math_min_def math_max_def)

lemma volume_setVolume:
  "volume (setVolume sn v u st) = JNum (math_min (Fin 1) (math_max (Fin 0) (toNumber sn v)))"
  by (simp add: setVolume_def Let_def vol)

lemma step_keeps_volume:
  "\<not> isSetVolume x \<Longrightarrow> volume (snd (step sn x st)) = volume st"
  by (cases x) (simp_all add: vol)

lemma step_keeps_volume_range:
  "volumeOk (volume st) \<Longrightarrow> setsNumber sn x \<Longrightarrow> volumeOk (volume (snd (step sn x st)))"
  by (cases x) (simp_all add: vol volume_setVolume clamp_cases)

lemma run_keeps_volume_range:
  "volumeOk (volume st) \<Longrightarrow> list_all (setsNumber sn) xs \<Longrightarrow> volumeOk (volume (run sn xs st))"
proof (induction xs arbitrary: st)
  case Nil
  then show ?case by simp
next
  case (Cons x xs)
  have "volumeOk (volume (snd (step sn x st)))"
    using Cons.prems by (intro step_keeps_volume_range) simp_all
  then show ?case using Cons.IH Cons.prems by simp
qed

text \<open>
  C5 as stated fails: the constructor stores \<^verbatim>\<open>options.volume\<close> as it is given, and
  \<open>setVolume\<close> without a numeric argument stores \<^verbatim>\<open>NaN\<close>.
\<close>

theorem constructor_volume_counterexample:
  "\<not> volumeOk (volume (constructor exHeap (volumeOption (JNum (Fin 5)))))
   \<and> \<not> volumeOk (volume (setVolume noNumber JUndefined JNull exPlayer))"
  by (simp add: constructor_def volumeOption_def exOptions_def volume_setVolume clamp_NaN)

text \<open>
  C5, amended. The constructor stores \<^verbatim>\<open>options.volume\<close> when it is truthy and 1
  otherwise. \<open>setVolume(v, actorId)\<close> stores \<^verbatim>\<open>Math.min(1, Math.max(0, v))\<close> and calls the
  hooks of \<^verbatim>\<open>onVolumeChange\<close> with the stored value and the actor id: for an argument whose
  number is not \<^verbatim>\<open>NaN\<close> the stored value is in [0,1], the clamp of a finite number, and
  for one whose number is \<^verbatim>\<open>NaN\<close> it is \<^verbatim>\<open>NaN\<close>. No operation other than \<open>setVolume\<close>
  changes the volume. So a volume that is in [0,1] stays in [0,1] along every sequence of
  operations whose \<open>setVolume\<close> arguments are numbers other than \<^verbatim>\<open>NaN\<close>, and it is in
  [0,1] from construction on when \<^verbatim>\<open>options.volume\<close> is falsy or in [0,1].
\<close>

theorem volume_in_range:
  "volume (constructor h opts) =
     (if truthy (opt_volume opts) then opt_volume opts else JNum (Fin 1))
   \<and> volume (setVolume sn v userID st) =
       JNum (math_min (Fin 1) (math_max (Fin 0) (toNumber sn v)))
   \<and> trace (setVolume sn v userID st) =
       trace st @ hookCalls (plugins st) ''onVolumeChange''
         [JNum (math_min (Fin 1) (math_max (Fin 0) (toNumber sn v))), userID]
   \<and> math_min (Fin 1) (math_max (Fin 0) (Fin y)) = Fin (min 1 (max 0 y))
   \<and> (if toNumber sn v = NaN then volume (setVolume sn v userID st) = JNum NaN
       else volumeOk (volume (setVolume sn v userID st)))
   \<and> (if isSetVolume x then True else volume (snd (step sn x st)) = volume st)
   \<and> (volumeOk (volume st) \<and> list_all (setsNumber sn) xs
        \<longrightarrow> volumeOk (volume (run sn xs st)))
   \<and> ((\<not> truthy (opt_volume opts) \<or> volumeOk (opt_volume opts)) \<and> list_all (setsNumber sn) xs
        \<longrightarrow> volumeOk (volume (run sn xs (constructor h opts))))"
proof -
  have c: "volume (constructor h opts) =
     (if truthy (opt_volume opts) then opt_volume opts else JNum (Fin 1))"
    by (simp add: constructor_def)
  have t: "trace (setVolume sn v userID st) =
      trace st @ hookCalls (plugins st) ''onVolumeChange''
        [JNum (math_min (Fin 1) (math_max (Fin 0) (toNumber sn v))), userID]"
    by (simp add: setVolume_def Let_def callHooks_state emit_def)
  have n: "if toNumber sn v = NaN then volume (setVolume sn v userID st) = JNum NaN
       else volumeOk (volume (setVolume sn v userID st))"
    by (simp add: volume_setVolume clamp_NaN clamp_cases)
  have k: "if isSetVolume x then True else volume (snd (step sn x st)) = volume st"
    by (simp add: step_keeps_volume)
  have r: "volumeOk (volume st) \<and> list_all (setsNumber sn) xs
        \<longrightarrow> volumeOk (volume (run sn xs st))"
    using run_keeps_volume_range by blast
  have "\<not> truthy (opt_volume opts) \<or> volumeOk (opt_volume opts)
        \<Longrightarrow> volumeOk (volume (constructor h opts))"
    by (auto simp: c)
  then have rc: "(\<not> truthy (opt_volume opts) \<or> volumeOk (opt_volume opts))
        \<and> list_all (setsNumber sn) xs
        \<longrightarrow> volumeOk (volume (run sn xs (constructor h opts)))"
    using run_keeps_volume_range by blast
  show ?thesis
    using c t n k r rc volume_setVolume[of sn v userID st] clamp_Fin[of y] by blast
qed

theorem volume_in_range_witness:
  "volumeOk (opt_volume (volumeOption (JNum (Fin 0.5))))
   \<and> list_all (setsNumber noNumber) [SetVolume (JNum (Fin 2)) JNull, StartPlayback None]
   \<and> volumeOk (volume (run noNumber [SetVolume (JNum (Fin 2)) JNull, StartPlayback None]
                         (constructor exHeap (volumeOption (JNum (Fin 0.5))))))
   \<and> volume (setVolume noNumber (JNum (Fin (- 1))) (JStr ''ann'') exPlayer) = JNum (Fin 0)
   \<and> volume (setVolume noNumber (JNum (Fin 2)) (JStr ''ann'') exPlayer) = JNum (Fin 1)
   \<and> volume (setVolume noNumber (JNum (Fin 0.4)) (JStr ''ann'') exPlayer) = JNum (Fin 0.4)
   \<and> volume (setVolume noNumber JUndefined (JStr ''ann'') exPlayer) = JNum NaN
   \<and> volume (snd (step noNumber (StartPlayback None) exPlayer)) = volume exPlayer"
proof -
  let ?o = "volumeOption (JNum (Fin 0.5))"
  let ?xs = "[SetVolume (JNum (Fin 2)) JNull, StartPlayback None]"
  have h0: "volumeOk (opt_volume ?o)"
    by (simp add: volumeOption_def)
  then have h1: "\<not> truthy (opt_volume ?o) \<or> volumeOk (opt_volume ?o)"
    by blast
  have h2: "list_all (setsNumber noNumber) ?xs" by simp
  have d: "volumeOk (volume (run noNumber ?xs (constructor exHeap ?o)))"
    using volume_in_range[of exHeap ?o noNumber JNull JNull exPlayer 0 Init ?xs] h1 h2
    by blast
  have a: "volume (setVolume noNumber (JNum (Fin (- 1))) (JStr ''ann'') exPlayer) = JNum (Fin 0)"
    using volume_in_range[of exHeap ?o noNumber "JNum (Fin (- 1))" "JStr ''ann''" exPlayer "- 1" Init "[]"]
    by simp
  have b: "volume (setVolume noNumber (JNum (Fin 2)) (JStr ''ann'') exPlayer) = JNum (Fin 1)"
    using volume_in_range[of exHeap ?o noNumber "JNum (Fin 2)" "JStr ''ann''" exPlayer 2 Init "[]"]
    by simp
  have c: "volume (setVolume noNumber (JNum (Fin 0.4)) (JStr ''ann'') exPlayer) = JNum (Fin 0.4)"
    using volume_in_range[of exHeap ?o noNumber "JNum (Fin 0.4)" "JStr ''ann''" exPlayer "0.4" Init "[]"]
    by simp
  have "if toNumber noNumber JUndefined = NaN
        then volume (setVolume noNumber JUndefined (JStr ''ann'') exPlayer) = JNum NaN
        else volumeOk (volume (setVolume noNumber JUndefined (JStr ''ann'') exPlayer))"
    using volume_in_range[of exHeap ?o noNumber JUndefined "JStr ''ann''" exPlayer 0 Init "[]"]
    by blast
  then have e: "volume (setVolume noNumber JUndefined (JStr ''ann'') exPlayer) = JNum NaN"
    by simp
  have f: "volume (snd (step noNumber (StartPlayback None) exPlayer)) = volume exPlayer"
    using volume_in_range[of exHeap ?o noNumber JNull JNull exPlayer 0 "StartPlayback None" "[]"]
    by simp
  show ?thesis using h0 h2 d a b c e f by blast
qed

end
